theory Spec2Isabelle
  imports Main "HOL-Library.Char_ord" "HOL-Library.List_Lexorder"
begin

section \<open>The store behind the connection layer\<close>

text \<open>
  Errors thrown by \<^verbatim>\<open>connection.ts\<close> and \<^verbatim>\<open>migrate.ts\<close>. The source throws plain
  \<^verbatim>\<open>Error\<close> objects told apart by their message; each message is a constructor here.
  \<open>ServerError\<close> stands for an error the database server raises for a statement,
  \<open>FileError\<close> for \<^verbatim>\<open>readFileSync\<close> failing on a path, \<open>ChecksumMismatch v old new\<close> for
  the "checksum mismatch" error of \<^verbatim>\<open>applyMigration\<close> (the spec's DriftDetected).
\<close>

datatype error =
    PoolNotInitialized
  | ServerError string
  | FileError string
  | ChecksumMismatch string string string
  | DatabaseUnhealthy

text \<open>\<^verbatim>\<open>MigrationFile\<close> of \<^verbatim>\<open>migrations/index.ts\<close>.\<close>

record MigrationFile =
  filename :: string
  version :: string
  description :: string
  path :: string

text \<open>
  A row of \<^verbatim>\<open>schema_migrations\<close> as \<^verbatim>\<open>createMigrationsTable\<close> declares it. The
  \<^verbatim>\<open>id SERIAL\<close> column is left out: no statement of the program reads or writes it.
\<close>

record migration_row =
  row_version :: string
  row_description :: string
  row_applied_at :: nat
  row_checksum :: string
  row_environment :: string

text \<open>
  The database: \<open>objects\<close> is everything but the tracking table (its type is left open),
  \<open>schema_migrations\<close> is the tracking table, \<open>None\<close> while the table does not exist.
\<close>

record 's database =
  objects :: 's
  schema_migrations :: "migration_row list option"

text \<open>
  What the program calls but does not define: the file system read by \<^verbatim>\<open>readFileSync\<close>
  (\<open>None\<close>: the call throws), the SHA-256 hex digest of Node's \<^verbatim>\<open>crypto\<close>, the server's
  execution of a unit's SQL text, the server clock read by \<^verbatim>\<open>DEFAULT NOW()\<close>, and the two
  statements that \<^verbatim>\<open>logAuditEvent\<close> sends to the audit storage of type \<open>'a\<close>.

  The text of a unit is sent whole, as one query, on the client that holds the open
  transaction. The server runs its statements one after the other, so \<open>exec_sql\<close> acts on
  what that client has: the database as the client sees it and the snapshot of the open
  transaction (\<open>None\<close>: no transaction is open). It returns the error of the statement
  that failed, if any, and what the text left behind: the statements before a failing one
  have had their effect on the client's view, the text may write any table, the tracking
  table included, and a \<^verbatim>\<open>COMMIT\<close> or \<^verbatim>\<open>ROLLBACK\<close> of its own ends the transaction that the
  program opened.
\<close>

record ('s, 'a) externals =
  readFileSync :: "string \<Rightarrow> string option"
  sha256 :: "string \<Rightarrow> string"
  exec_sql :: "string \<Rightarrow> 's database \<times> 's database option
                 \<Rightarrow> error option \<times> 's database \<times> 's database option"
  now :: nat
  audit_table_exists :: "'a \<Rightarrow> error + bool"
  audit_insert :: "string \<Rightarrow> string \<Rightarrow> 'a \<Rightarrow> error + 'a"

text \<open>
  A \<^verbatim>\<open>PostgreSQLManager\<close> together with the server it talks to: \<open>pool\<close> is
  \<^verbatim>\<open>this.pool !== null\<close>, \<open>db\<close> the database as the connected client sees it, \<open>saved\<close> the
  snapshot that \<^verbatim>\<open>BEGIN\<close> takes and \<^verbatim>\<open>ROLLBACK\<close> restores, \<open>audit_log\<close> the audit storage,
  which \<^verbatim>\<open>logAuditEvent\<close> reaches through \<^verbatim>\<open>pool.query\<close>, outside any open transaction.
  With an open pool, taking a client and the statements \<^verbatim>\<open>BEGIN\<close>, \<^verbatim>\<open>COMMIT\<close>, \<^verbatim>\<open>ROLLBACK\<close>
  and \<^verbatim>\<open>SELECT 1\<close> are taken to succeed (outside a transaction the server answers \<^verbatim>\<open>COMMIT\<close>
  and \<^verbatim>\<open>ROLLBACK\<close> with a warning, not an error); the statements that can fail are those on
  the tracking table, the content of a unit and the two audit statements.
\<close>

record ('s, 'a) pg =
  pool :: bool
  db :: "'s database"
  saved :: "'s database option"
  audit_log :: 'a

text \<open>An awaited call: it returns a value or throws, and leaves a new state either way.\<close>

type_synonym ('r, 'w) action = "'w \<Rightarrow> (error + 'r) \<times> 'w"

text \<open>\<^verbatim>\<open>const r = await f; g(r)\<close>: an error of \<open>f\<close> propagates, \<open>g\<close> is not run.\<close>

definition andThen :: "('r, 'w) action \<Rightarrow> ('r \<Rightarrow> ('q, 'w) action) \<Rightarrow> ('q, 'w) action" where
  "andThen f g w = (case f w of (Inl e, w') \<Rightarrow> (Inl e, w') | (Inr r, w') \<Rightarrow> g r w')"

subsection \<open>The statements the program sends\<close>

definition sql_select_1 :: "'s database \<Rightarrow> error + unit \<times> 's database" where
  "sql_select_1 d = Inr ((), d)"

text \<open>\<^verbatim>\<open>CREATE TABLE IF NOT EXISTS schema_migrations ...; CREATE INDEX IF NOT EXISTS ...\<close>\<close>

definition createTableQuery :: string where
  "createTableQuery = ''CREATE TABLE IF NOT EXISTS schema_migrations (id SERIAL PRIMARY KEY, version VARCHAR(50) UNIQUE NOT NULL, description TEXT NOT NULL, applied_at TIMESTAMPTZ DEFAULT NOW(), checksum VARCHAR(64) NOT NULL, environment VARCHAR(20) NOT NULL); CREATE INDEX IF NOT EXISTS idx_schema_migrations_version ON schema_migrations(version);''"

definition sql_create_table :: "'s database \<Rightarrow> error + unit \<times> 's database" where
  "sql_create_table d =
     Inr ((), case schema_migrations d of
                None \<Rightarrow> d\<lparr>schema_migrations := Some []\<rparr>
              | Some rows \<Rightarrow> d)"

text \<open>\<^verbatim>\<open>SELECT checksum, environment FROM schema_migrations WHERE version = $1\<close>\<close>

definition sql_select_version ::
  "string \<Rightarrow> 's database \<Rightarrow> error + (string \<times> string) list \<times> 's database" where
  "sql_select_version v d =
     (case schema_migrations d of
        None \<Rightarrow> Inl (ServerError ''relation schema_migrations does not exist'')
      | Some rows \<Rightarrow>
          Inr (map (\<lambda>r. (row_checksum r, row_environment r))
                 (filter (\<lambda>r. row_version r = v) rows), d))"

text \<open>
  Storing a value in a \<^verbatim>\<open>VARCHAR(n)\<close> column: a value of at most \<open>n\<close> characters is stored
  as it is; a longer one is cut to \<open>n\<close> characters when all the characters beyond are
  spaces, and rejected otherwise (\<open>None\<close>).
\<close>

definition store_varchar :: "nat \<Rightarrow> string \<Rightarrow> string option" where
  "store_varchar n s =
     (if length s \<le> n then Some s
      else if list_all (\<lambda>c. c = CHR 0x20) (drop n s) then Some (take n s)
      else None)"

text \<open>
  \<^verbatim>\<open>INSERT INTO schema_migrations (version, description, checksum, environment) VALUES ($1, $2, $3, $4)\<close>:
  the three values are brought to their \<^verbatim>\<open>VARCHAR\<close> columns first, and the server rejects
  a stored version that is already there (\<^verbatim>\<open>UNIQUE\<close>); \<^verbatim>\<open>applied_at\<close> takes its default.
\<close>

definition sql_insert_migration ::
  "nat \<Rightarrow> string \<Rightarrow> string \<Rightarrow> string \<Rightarrow> string \<Rightarrow> 's database \<Rightarrow> error + unit \<times> 's database" where
  "sql_insert_migration t v descr c env d =
     (case schema_migrations d of
        None \<Rightarrow> Inl (ServerError ''relation schema_migrations does not exist'')
      | Some rows \<Rightarrow>
          (case (store_varchar 50 v, store_varchar 64 c, store_varchar 20 env) of
             (Some v', Some c', Some env') \<Rightarrow>
               if v' \<in> set (map row_version rows)
               then Inl (ServerError ''duplicate key value violates unique constraint'')
               else Inr ((), d\<lparr>schema_migrations :=
                      Some (rows @ [\<lparr>row_version = v', row_description = descr,
                                      row_applied_at = t, row_checksum = c',
                                      row_environment = env'\<rparr>])\<rparr>)
           | _ \<Rightarrow> Inl (ServerError ''value too long for type character varying'')))"

text \<open>
  \<^verbatim>\<open>SELECT version, description, applied_at, environment FROM schema_migrations ORDER BY version\<close>;
  the order is the lexicographic order of the characters.
\<close>

definition sql_select_all :: "'s database \<Rightarrow> error + migration_row list \<times> 's database" where
  "sql_select_all d =
     (case schema_migrations d of
        None \<Rightarrow> Inl (ServerError ''relation schema_migrations does not exist'')
      | Some rows \<Rightarrow> Inr (sort_key row_version rows, d))"

text \<open>
  \<^verbatim>\<open>client.query(text, params)\<close> on an acquired client, for the single statements above:
  the statement \<open>run\<close> acts on the database; a rejected statement changes nothing.
\<close>

definition client_query ::
  "('s database \<Rightarrow> error + 'r \<times> 's database) \<Rightarrow> ('r, ('s, 'a) pg) action" where
  "client_query run w =
     (case run (db w) of
        Inl e \<Rightarrow> (Inl e, w)
      | Inr (r, d) \<Rightarrow> (Inr r, w\<lparr>db := d\<rparr>))"

text \<open>
  \<^verbatim>\<open>client.query(sqlContent)\<close>: the text of a migration unit, executed by the server on
  the client's database and open transaction. What the text did stays, also when one of
  its statements fails and the call throws.
\<close>

definition client_exec :: "('s, 'a) externals \<Rightarrow> string \<Rightarrow> (unit, ('s, 'a) pg) action" where
  "client_exec E text w =
     (case exec_sql E text (db w, saved w) of
        (None, d, s) \<Rightarrow> (Inr (), w\<lparr>db := d, saved := s\<rparr>)
      | (Some e, d, s) \<Rightarrow> (Inl e, w\<lparr>db := d, saved := s\<rparr>))"

text \<open>\<^verbatim>\<open>client.query("BEGIN")\<close>, \<^verbatim>\<open>("COMMIT")\<close>, \<^verbatim>\<open>("ROLLBACK")\<close>.\<close>

definition client_begin :: "('s, 'a) pg \<Rightarrow> ('s, 'a) pg" where
  "client_begin w = w\<lparr>saved := Some (db w)\<rparr>"

definition client_commit :: "('s, 'a) pg \<Rightarrow> ('s, 'a) pg" where
  "client_commit w = w\<lparr>saved := None\<rparr>"

definition client_rollback :: "('s, 'a) pg \<Rightarrow> ('s, 'a) pg" where
  "client_rollback w = (case saved w of None \<Rightarrow> w | Some d \<Rightarrow> w\<lparr>db := d, saved := None\<rparr>)"

section \<open>\<^verbatim>\<open>PostgreSQLManager\<close> (connection.ts)\<close>

text \<open>
  The \<^verbatim>\<open>try\<close> block of \<^verbatim>\<open>logAuditEvent\<close>: with a pool, check that the audit table exists,
  return silently when it does not, insert the event otherwise. Either statement may throw.
\<close>

definition logAuditEvent_try ::
  "('s, 'a) externals \<Rightarrow> string \<Rightarrow> string \<Rightarrow> (unit, ('s, 'a) pg) action" where
  "logAuditEvent_try E eventType details w =
     (if pool w then
        (case audit_table_exists E (audit_log w) of
           Inl e \<Rightarrow> (Inl e, w)
         | Inr ex \<Rightarrow>
             if \<not> ex then (Inr (), w)
             else (case audit_insert E eventType details (audit_log w) of
                     Inl e \<Rightarrow> (Inl e, w)
                   | Inr a \<Rightarrow> (Inr (), w\<lparr>audit_log := a\<rparr>)))
      else (Inr (), w))"

text \<open>\<^verbatim>\<open>logAuditEvent\<close>: the \<^verbatim>\<open>catch\<close> logs the error to the console and returns.\<close>

definition logAuditEvent ::
  "('s, 'a) externals \<Rightarrow> string \<Rightarrow> string \<Rightarrow> (unit, ('s, 'a) pg) action" where
  "logAuditEvent E eventType details w =
     (case logAuditEvent_try E eventType details w of
        (Inl e, w') \<Rightarrow> (Inr (), w')
      | (Inr u, w') \<Rightarrow> (Inr u, w'))"

text \<open>
  \<^verbatim>\<open>getConnection\<close>: throws without a pool; otherwise takes a client from the pool and
  awaits the audit event. The \<^verbatim>\<open>catch\<close> rethrows.
\<close>

definition getConnection :: "('s, 'a) externals \<Rightarrow> (unit, ('s, 'a) pg) action" where
  "getConnection E w =
     (if \<not> pool w then (Inl PoolNotInitialized, w)
      else logAuditEvent E ''data_access'' ''Connection acquired'' w)"

text \<open>
  \<^verbatim>\<open>query(text, params)\<close>: acquire a client, await the audit event, run the statement.
  The \<^verbatim>\<open>catch\<close> rethrows and the \<^verbatim>\<open>finally\<close> releases the client.
\<close>

definition query ::
  "('s, 'a) externals \<Rightarrow> string \<Rightarrow> ('s database \<Rightarrow> error + 'r \<times> 's database)
     \<Rightarrow> ('r, ('s, 'a) pg) action" where
  "query E text run =
     andThen (getConnection E) (\<lambda>client.
     andThen (logAuditEvent E ''data_access'' (''Query: '' @ take 100 text @ ''...'')) (\<lambda>u.
     client_query run))"

text \<open>
  \<^verbatim>\<open>transaction(callback)\<close>: \<^verbatim>\<open>BEGIN\<close>, audit event, callback, \<^verbatim>\<open>COMMIT\<close>, audit event;
  any error thrown in between is caught, answered by \<^verbatim>\<open>ROLLBACK\<close> and rethrown.
\<close>

definition transaction_try ::
  "('s, 'a) externals \<Rightarrow> ('r, ('s, 'a) pg) action \<Rightarrow> ('r, ('s, 'a) pg) action" where
  "transaction_try E callback w =
     andThen (logAuditEvent E ''data_access'' ''Transaction started'') (\<lambda>u.
     andThen callback (\<lambda>result w'.
     andThen (logAuditEvent E ''data_access'' ''Transaction committed'') (\<lambda>u w''.
       (Inr result, w'')) (client_commit w'))) (client_begin w)"

definition transaction ::
  "('s, 'a) externals \<Rightarrow> ('r, ('s, 'a) pg) action \<Rightarrow> ('r, ('s, 'a) pg) action" where
  "transaction E callback =
     andThen (getConnection E) (\<lambda>client w.
       case transaction_try E callback w of
         (Inl e, w') \<Rightarrow> (Inl e, client_rollback w')
       | (Inr result, w') \<Rightarrow> (Inr result, w'))"

text \<open>\<^verbatim>\<open>healthCheck\<close>: whether \<^verbatim>\<open>SELECT 1\<close> went through (the latency is not modelled).\<close>

definition healthCheck :: "('s, 'a) externals \<Rightarrow> (bool, ('s, 'a) pg) action" where
  "healthCheck E w =
     (case query E ''SELECT 1 as health_check'' sql_select_1 w of
        (Inl e, w') \<Rightarrow> (Inr False, w')
      | (Inr u, w') \<Rightarrow> (Inr True, w'))"

text \<open>\<^verbatim>\<open>close\<close>: ends the pool and forgets it.\<close>

definition close :: "('s, 'a) pg \<Rightarrow> ('s, 'a) pg" where
  "close w = (if pool w then w\<lparr>pool := False\<rparr> else w)"

section \<open>\<^verbatim>\<open>DatabaseMigrator\<close> (migrate.ts)\<close>

definition createMigrationsTable :: "('s, 'a) externals \<Rightarrow> (unit, ('s, 'a) pg) action" where
  "createMigrationsTable E = query E createTableQuery sql_create_table"

definition generateChecksum :: "('s, 'a) externals \<Rightarrow> string \<Rightarrow> string" where
  "generateChecksum E content = sha256 E content"

text \<open>
  \<^verbatim>\<open>isMigrationApplied\<close>: \<open>Some (checksum, environment)\<close> of the first row returned is
  \<^verbatim>\<open>{applied: true, checksum, environment}\<close>; \<open>None\<close> is \<^verbatim>\<open>{applied: false}\<close>.
\<close>

definition isMigrationApplied ::
  "('s, 'a) externals \<Rightarrow> string \<Rightarrow> ((string \<times> string) option, ('s, 'a) pg) action" where
  "isMigrationApplied E v =
     andThen (query E ''SELECT checksum, environment FROM schema_migrations WHERE version = $1''
                (sql_select_version v))
       (\<lambda>rows w. (Inr (case rows of [] \<Rightarrow> None | r # rs \<Rightarrow> Some r), w))"

text \<open>
  \<^verbatim>\<open>applyMigration\<close>: read the file, compute its checksum, look the version up; return
  when the checksums agree, throw when they differ, and otherwise run the content and the
  insert of the tracking row inside one \<^verbatim>\<open>transaction\<close>. \<open>environment\<close> is
  \<^verbatim>\<open>this.context.environment\<close>.
\<close>

definition applyMigration ::
  "('s, 'a) externals \<Rightarrow> string \<Rightarrow> MigrationFile \<Rightarrow> (unit, ('s, 'a) pg) action" where
  "applyMigration E environment migration w =
     (case readFileSync E (path migration) of
        None \<Rightarrow> (Inl (FileError (path migration)), w)
      | Some sqlContent \<Rightarrow>
          (let checksum = generateChecksum E sqlContent in
           andThen (isMigrationApplied E (version migration)) (\<lambda>found.
             case found of
               Some (existingChecksum, env) \<Rightarrow>
                 (\<lambda>w'. if existingChecksum = checksum then (Inr (), w')
                       else (Inl (ChecksumMismatch (version migration) existingChecksum checksum), w'))
             | None \<Rightarrow>
                 transaction E
                   (andThen (client_exec E sqlContent) (\<lambda>u.
                    client_query (sql_insert_migration (now E) (version migration)
                      (description migration) checksum environment)))) w))"

text \<open>The \<^verbatim>\<open>for\<close> loop of \<^verbatim>\<open>migrate\<close>, with its counter \<^verbatim>\<open>appliedCount\<close>.\<close>

fun migrate_loop ::
  "('s, 'a) externals \<Rightarrow> string \<Rightarrow> MigrationFile list \<Rightarrow> nat \<Rightarrow> (nat, ('s, 'a) pg) action" where
  "migrate_loop E environment [] appliedCount w = (Inr appliedCount, w)"
| "migrate_loop E environment (migration # rest) appliedCount w =
     andThen (isMigrationApplied E (version migration)) (\<lambda>wasApplied.
     andThen (applyMigration E environment migration) (\<lambda>u.
       migrate_loop E environment rest
         (if wasApplied = None then appliedCount + 1 else appliedCount))) w"

text \<open>
  \<^verbatim>\<open>migrate\<close>: health check, tracking table, loop. An error ends the process in the
  \<^verbatim>\<open>catch\<close> (\<^verbatim>\<open>process.exit(1)\<close>), so the result is the error and the state at that point; a
  run that reaches the end closes the pool in the \<^verbatim>\<open>finally\<close> and its result is the
  \<^verbatim>\<open>appliedCount\<close> it reports. \<open>migrations\<close> is \<^verbatim>\<open>getMigrationFiles()\<close>.
\<close>

definition migrate ::
  "('s, 'a) externals \<Rightarrow> string \<Rightarrow> MigrationFile list \<Rightarrow> (nat, ('s, 'a) pg) action" where
  "migrate E environment migrations w =
     (case andThen (healthCheck E) (\<lambda>healthy.
             if \<not> healthy then (\<lambda>w'. (Inl DatabaseUnhealthy, w'))
             else andThen (createMigrationsTable E) (\<lambda>u.
                    migrate_loop E environment migrations 0)) w of
        (Inl e, w') \<Rightarrow> (Inl e, w')
      | (Inr appliedCount, w') \<Rightarrow> (Inr appliedCount, close w'))"

text \<open>
  \<^verbatim>\<open>status\<close> prints two lists: every row of the tracking table, and the units of the
  catalog whose version is not among those rows. They are the result here.
\<close>

definition status ::
  "('s, 'a) externals \<Rightarrow> MigrationFile list
     \<Rightarrow> (migration_row list \<times> MigrationFile list, ('s, 'a) pg) action" where
  "status E allMigrations w =
     (case andThen (healthCheck E) (\<lambda>healthy.
             if \<not> healthy then (\<lambda>w'. (Inl DatabaseUnhealthy, w'))
             else andThen (createMigrationsTable E) (\<lambda>u.
                  andThen (query E ''SELECT version, description, applied_at, environment FROM schema_migrations ORDER BY version''
                             sql_select_all) (\<lambda>appliedMigrations w'.
                    (let appliedVersions = set (map row_version appliedMigrations);
                         pendingMigrations =
                           filter (\<lambda>m. version m \<notin> appliedVersions) allMigrations
                     in (Inr (appliedMigrations, pendingMigrations), w'))))) w of
        (Inl e, w') \<Rightarrow> (Inl e, w')
      | (Inr r, w') \<Rightarrow> (Inr r, close w'))"

text \<open>
  What \<^verbatim>\<open>ROLLBACK\<close> leaves of a database and its open transaction: the snapshot, or the
  database as it is when no transaction is open.
\<close>

definition rolled_back :: "'s database \<times> 's database option \<Rightarrow> 's database" where
  "rolled_back p = (case snd p of None \<Rightarrow> fst p | Some d \<Rightarrow> d)"


text \<open>
  What applying the pending units of a catalog means for the database, in the words of
  the specification: for each unit in catalog order, a unit whose version has a tracking
  record is skipped; for any other the content is executed, as in a transaction begun on
  the database at that point, and then its tracking record inserted. No connection, pool
  or audit event takes part. Where a file cannot be read or the insert is rejected there
  is nothing to apply further.
\<close>

fun apply_pending ::
  "('s, 'a) externals \<Rightarrow> string \<Rightarrow> MigrationFile list \<Rightarrow> 's database \<Rightarrow> 's database" where
  "apply_pending E env [] d = d"
| "apply_pending E env (m # rest) d =
     (case readFileSync E (path m) of
        None \<Rightarrow> d
      | Some c \<Rightarrow>
          if version m \<in> set (map row_version
               (case schema_migrations d of None \<Rightarrow> [] | Some rows \<Rightarrow> rows))
          then apply_pending E env rest d
          else (case sql_insert_migration (now E) (version m) (description m) (sha256 E c) env
                       (fst (snd (exec_sql E c (d, Some d)))) of
                  Inl e \<Rightarrow> d
                | Inr (u, d') \<Rightarrow> apply_pending E env rest d'))"

text \<open>A newly constructed manager on a database: the pool is open, no transaction is.\<close>

definition connect :: "'s database \<Rightarrow> 'a \<Rightarrow> ('s, 'a) pg" where
  "connect d a = \<lparr>pool = True, db = d, saved = None, audit_log = a\<rparr>"

text \<open>What matters of a manager for the caller: pool, database and open transaction.\<close>

definition session :: "('s, 'a) pg \<Rightarrow> bool \<times> 's database \<times> 's database option" where
  "session w = (pool w, db w, saved w)"

text \<open>\<^verbatim>\<open>MIGRATIONS\<close> of \<^verbatim>\<open>migrations/index.ts\<close>; \<open>dirname\<close> is \<^verbatim>\<open>__dirname\<close>.\<close>

definition MIGRATIONS :: "string \<Rightarrow> MigrationFile list" where
  "MIGRATIONS dirname =
     [\<lparr>filename = ''001_initial_schema.sql'', version = ''001'',
       description = ''Initial APPI compliant schema with encrypted PII fields'',
       path = dirname @ ''/001_initial_schema.sql''\<rparr>]"

section \<open>Configuration and confirmation (migrate.ts)\<close>

record EnvironmentConfig =
  name :: string
  envFile :: string
  requiresConfirmation :: bool
  confirmationKeyword :: string
  config_description :: string

text \<open>\<^verbatim>\<open>DatabaseConfig\<close>; \<open>'n\<close> is the number that \<^verbatim>\<open>parseInt\<close> returns for the port.\<close>

record 'n DatabaseConfig =
  host :: string
  port :: 'n
  database :: string
  user :: string
  password :: string
  ssl :: bool
  sslRejectUnauthorized :: bool

record 'n MigrationContext =
  environment :: string
  config :: EnvironmentConfig
  dbConfig :: "'n DatabaseConfig"
  isCI :: bool
  autoConfirm :: bool

text \<open>
  Errors of \<^verbatim>\<open>ConfigurationLoader\<close>: the two messages of \<^verbatim>\<open>detectEnvironment\<close>, the
  \<^verbatim>\<open>TypeError\<close> that JavaScript raises when a property of \<^verbatim>\<open>undefined\<close> is read, and
  "Unsupported environment".
\<close>

datatype config_error =
    MigrationEnvNotSet
  | InvalidMigrationEnv string
  | TypeError string
  | UnsupportedEnvironment string

text \<open>
  \<^verbatim>\<open>ENVIRONMENT_CONFIGS\<close>: the object has the one key \<^verbatim>\<open>local\<close>; the entries for
  \<^verbatim>\<open>dev\<close> and \<^verbatim>\<open>prod\<close> are commented out in the source.
\<close>

definition ENVIRONMENT_CONFIGS :: "string \<rightharpoonup> EnvironmentConfig" where
  "ENVIRONMENT_CONFIGS =
     [''local'' \<mapsto> \<lparr>name = ''local'', envFile = ''.env.local'', requiresConfirmation = False,
                     confirmationKeyword = ''yes'',
                     config_description = ''Local Docker PostgreSQL (Safe)''\<rparr>]"

text \<open>
  \<^verbatim>\<open>detectEnvironment\<close> reads \<^verbatim>\<open>process.env.MIGRATION_ENV\<close>; \<open>penv\<close> is \<^verbatim>\<open>process.env\<close>.
  \<^verbatim>\<open>!env\<close> holds for an unset variable and for the empty string.
\<close>

definition detectEnvironment :: "(string \<rightharpoonup> string) \<Rightarrow> config_error + string" where
  "detectEnvironment penv =
     (case penv ''MIGRATION_ENV'' of
        None \<Rightarrow> Inl MigrationEnvNotSet
      | Some env \<Rightarrow>
          if env = [] then Inl MigrationEnvNotSet
          else if env \<notin> set [''local'', ''dev'', ''prod''] then Inl (InvalidMigrationEnv env)
          else Inr env)"

text \<open>
  \<^verbatim>\<open>loadEnvironmentFile\<close>: \<open>dotenv f\<close> is the parsed content of the file \<open>f\<close>, \<open>None\<close> when
  \<^verbatim>\<open>existsSync\<close> is false. \<^verbatim>\<open>dotenv\<close> sets the variables that \<^verbatim>\<open>process.env\<close> does not
  have yet.
\<close>

definition loadEnvironmentFile ::
  "(string \<Rightarrow> (string \<rightharpoonup> string) option) \<Rightarrow> string \<Rightarrow> (string \<rightharpoonup> string)
     \<Rightarrow> (string \<rightharpoonup> string)" where
  "loadEnvironmentFile dotenv file penv =
     (case dotenv file of None \<Rightarrow> penv | Some vars \<Rightarrow> vars ++ penv)"

text \<open>\<^verbatim>\<open>process.env.X || d\<close>: the default also replaces the empty string.\<close>

definition or_default :: "string option \<Rightarrow> string \<Rightarrow> string" where
  "or_default x d = (case x of None \<Rightarrow> d | Some v \<Rightarrow> if v = [] then d else v)"

definition loadLocalConfig ::
  "(string \<Rightarrow> 'n) \<Rightarrow> (string \<rightharpoonup> string) \<Rightarrow> 'n DatabaseConfig" where
  "loadLocalConfig parseInt penv =
     \<lparr>host = or_default (penv ''POSTGRES_HOST'') ''localhost'',
      port = parseInt (or_default (penv ''POSTGRES_PORT'') ''5432''),
      database = or_default (penv ''POSTGRES_DB'') ''tacyhon_dev'',
      user = or_default (penv ''POSTGRES_USER'') ''tachyon_dev'',
      password = or_default (penv ''POSTGRES_PASSWORD'') ''dev_password'',
      ssl = False,
      sslRejectUnauthorized = False\<rparr>"

text \<open>
  \<^verbatim>\<open>buildContext\<close>: \<^verbatim>\<open>config.description\<close> is read first, which throws a \<^verbatim>\<open>TypeError\<close>
  when \<^verbatim>\<open>ENVIRONMENT_CONFIGS\<close> has no entry for the environment; then the environment
  file is loaded and the database configuration built, for \<^verbatim>\<open>local\<close> only.
\<close>

definition buildContext ::
  "(string \<Rightarrow> 'n) \<Rightarrow> (string \<Rightarrow> (string \<rightharpoonup> string) option) \<Rightarrow> (string \<rightharpoonup> string)
     \<Rightarrow> config_error + 'n MigrationContext" where
  "buildContext parseInt dotenv penv =
     (case detectEnvironment penv of
        Inl e \<Rightarrow> Inl e
      | Inr env \<Rightarrow>
          (case ENVIRONMENT_CONFIGS env of
             None \<Rightarrow> Inl (TypeError ''Cannot read properties of undefined (reading description)'')
           | Some cfg \<Rightarrow>
               (let penv' = loadEnvironmentFile dotenv (envFile cfg) penv in
                if env = ''local''
                then Inr \<lparr>environment = env, config = cfg,
                          dbConfig = loadLocalConfig parseInt penv',
                          isCI = (penv' ''CI'' = Some ''true''),
                          autoConfirm = (penv' ''AUTO_CONFIRM'' = Some ''true'')\<rparr>
                else Inl (UnsupportedEnvironment env))))"

text \<open>
  \<^verbatim>\<open>String.prototype.trim\<close> removes white space and line terminators from both ends.
  Among the characters of \<open>char\<close> (code points below 256) these are tab, line feed,
  vertical tab, form feed, carriage return, space and no-break space.
\<close>

definition js_whitespace :: "char \<Rightarrow> bool" where
  "js_whitespace c \<longleftrightarrow>
     c \<in> set [CHR 0x09, CHR 0x0A, CHR 0x0B, CHR 0x0C, CHR 0x0D, CHR 0x20, CHR 0xA0]"

definition trim :: "string \<Rightarrow> string" where
  "trim s = rev (dropWhile js_whitespace (rev (dropWhile js_whitespace s)))"

text \<open>
  \<^verbatim>\<open>promptConfirmation\<close>: \<open>stdin\<close> is the lines the operator will type. The result is the
  boolean the promise resolves to and the lines left unread; \<open>None\<close> when the question is
  asked and no line ever comes, so that the promise never resolves.
\<close>

definition promptConfirmation ::
  "'n MigrationContext \<Rightarrow> string list \<Rightarrow> (bool \<times> string list) option" where
  "promptConfirmation context stdin =
     (if isCI context \<or> autoConfirm context then Some (True, stdin)
      else if \<not> requiresConfirmation (config context) then Some (True, stdin)
      else (case stdin of
              [] \<Rightarrow> None
            | answer # rest \<Rightarrow>
                Some (trim answer = confirmationKeyword (config context), rest)))"

section \<open>The release manifest (create-release.sh)\<close>

record service =
  sha :: string
  image :: string
  tag :: string

record staging_metadata =
  staging_deployed_at :: string
  staging_deployed_by :: string

record production_metadata =
  production_deployed_at :: string
  production_deployed_by :: string
  production_approved_by :: string

record environments_metadata =
  staging :: staging_metadata
  production :: production_metadata

text \<open>
  A release manifest as a structure: the members of the JSON document of
  \<^verbatim>\<open>releases/README.md\<close>.
\<close>

record manifest =
  manifest_version :: string
  created_at :: string
  manifest_description :: string
  services :: "(string \<times> service) list"
  environments :: environments_metadata

datatype release_error =
    MissingArgument string
  | RedirectionFailed
  | EchoFailed
  | ManifestNotFound
  | StagingNotDoneError

text \<open>\<^verbatim>\<open>${N:?message}\<close>: the shell exits with the message when argument \<open>N\<close> is unset or empty.\<close>

definition required :: "string list \<Rightarrow> nat \<Rightarrow> string \<Rightarrow> release_error + string" where
  "required args i message =
     (if i < length args \<and> args ! i \<noteq> [] then Inr (args ! i)
      else Inl (MissingArgument message))"

text \<open>
  A text between double quotes, and the lines of a file. The shell pastes the value of a
  variable into the here-document as it is: nothing is escaped.
\<close>

definition quoted :: "string \<Rightarrow> string" where
  "quoted s = [CHR 0x22] @ s @ [CHR 0x22]"

definition unlines :: "string list \<Rightarrow> string" where
  "unlines ls = concat (map (\<lambda>l. l @ [CHR 0x0A]) ls)"

text \<open>
  The here-document of \<^verbatim>\<open>create-release.sh\<close>, line by line, with the four variables and
  the output of \<^verbatim>\<open>date\<close> expanded.
\<close>

definition heredoc :: "string \<Rightarrow> string \<Rightarrow> string \<Rightarrow> string \<Rightarrow> string \<Rightarrow> string" where
  "heredoc VERSION date API_SHA WORKERS_SHA DB_SHA = unlines
     [''{'',
      ''  '' @ quoted ''version'' @ '': '' @ quoted VERSION @ '','',
      ''  '' @ quoted ''created_at'' @ '': '' @ quoted date @ '','',
      ''  '' @ quoted ''description'' @ '': '' @ quoted '''' @ '','',
      ''  '' @ quoted ''services'' @ '': {'',
      ''    '' @ quoted ''tachyon-api'' @ '': {'',
      ''      '' @ quoted ''sha'' @ '': '' @ quoted API_SHA @ '','',
      ''      '' @ quoted ''image'' @ '': '' @ quoted ''ghcr.io/tachyonapp/tachyon-api'' @ '','',
      ''      '' @ quoted ''tag'' @ '': '' @ quoted API_SHA,
      ''    },'',
      ''    '' @ quoted ''tachyon-workers'' @ '': {'',
      ''      '' @ quoted ''sha'' @ '': '' @ quoted WORKERS_SHA @ '','',
      ''      '' @ quoted ''image'' @ '': '' @ quoted ''ghcr.io/tachyonapp/tachyon-workers'' @ '','',
      ''      '' @ quoted ''tag'' @ '': '' @ quoted WORKERS_SHA,
      ''    },'',
      ''    '' @ quoted ''tachyon-db-migrate'' @ '': {'',
      ''      '' @ quoted ''sha'' @ '': '' @ quoted DB_SHA @ '','',
      ''      '' @ quoted ''image'' @ '': '' @ quoted ''ghcr.io/tachyonapp/tachyon-db-migrate'' @ '','',
      ''      '' @ quoted ''tag'' @ '': '' @ quoted DB_SHA,
      ''    }'',
      ''  },'',
      ''  '' @ quoted ''environments'' @ '': {'',
      ''    '' @ quoted ''staging'' @ '': {'',
      ''      '' @ quoted ''deployed_at'' @ '': '' @ quoted '''' @ '','',
      ''      '' @ quoted ''deployed_by'' @ '': '' @ quoted '''',
      ''    },'',
      ''    '' @ quoted ''production'' @ '': {'',
      ''      '' @ quoted ''deployed_at'' @ '': '' @ quoted '''' @ '','',
      ''      '' @ quoted ''deployed_by'' @ '': '' @ quoted '''' @ '','',
      ''      '' @ quoted ''approved_by'' @ '': '' @ quoted '''',
      ''    }'',
      ''  }'',
      ''}'']"

text \<open>
  What the run of the script meets outside its arguments: the output of \<^verbatim>\<open>date -u\<close>, what
  becomes of \<^verbatim>\<open>cat > releases/manifest.json\<close>, and whether \<^verbatim>\<open>echo\<close> can write to the standard
  output. The redirection either cannot open the file, which then stays as it was (the
  directory is missing, the file is not writable), or opens and empties it; after that
  the write goes through, or stops after some characters.
\<close>

datatype redirection = Written | OpenFailed | WriteFailed nat

record shell =
  date_output :: string
  redirect :: redirection
  stdout_ok :: bool

text \<open>
  \<^verbatim>\<open>create-release.sh\<close> under \<^verbatim>\<open>set -euo pipefail\<close>: \<open>args\<close> are the positional arguments,
  \<open>file\<close> the text of \<^verbatim>\<open>releases/manifest.json\<close> before the run (\<open>None\<close>: no such file). The
  result is the exit of the script (\<open>Inr ()\<close>: status 0) and the text of the file after the
  run. The script does not read the file; \<^verbatim>\<open>cat >\<close> replaces it. A command that fails ends
  the script with a non-zero status.
\<close>

definition create_release ::
  "string list \<Rightarrow> shell \<Rightarrow> string option \<Rightarrow> (release_error + unit) \<times> string option" where
  "create_release args sh file =
     (case required args 0 ''Usage: create-release.sh <version> <api-sha> <workers-sha> <db-sha>'' of
        Inl e \<Rightarrow> (Inl e, file)
      | Inr VERSION \<Rightarrow>
     (case required args 1 ''Missing api-sha'' of
        Inl e \<Rightarrow> (Inl e, file)
      | Inr API_SHA \<Rightarrow>
     (case required args 2 ''Missing workers-sha'' of
        Inl e \<Rightarrow> (Inl e, file)
      | Inr WORKERS_SHA \<Rightarrow>
     (case required args 3 ''Missing db-sha'' of
        Inl e \<Rightarrow> (Inl e, file)
      | Inr DB_SHA \<Rightarrow>
          (let document = heredoc VERSION (date_output sh) API_SHA WORKERS_SHA DB_SHA in
           case redirect sh of
             OpenFailed \<Rightarrow> (Inl RedirectionFailed, file)
           | WriteFailed n \<Rightarrow> (Inl RedirectionFailed, Some (take n document))
           | Written \<Rightarrow>
               if stdout_ok sh then (Inr (), Some document)
               else (Inl EchoFailed, Some document))))))"

text \<open>
  The manifest that the here-document spells out: the version, the date and the three
  SHAs in their places, the description and both environment records empty.
\<close>

definition new_manifest :: "string \<Rightarrow> string \<Rightarrow> string \<Rightarrow> string \<Rightarrow> string \<Rightarrow> manifest" where
  "new_manifest VERSION date API_SHA WORKERS_SHA DB_SHA =
     \<lparr>manifest_version = VERSION,
      created_at = date,
      manifest_description = [],
      services =
        [(''tachyon-api'',
            \<lparr>sha = API_SHA, image = ''ghcr.io/tachyonapp/tachyon-api'', tag = API_SHA\<rparr>),
         (''tachyon-workers'',
            \<lparr>sha = WORKERS_SHA, image = ''ghcr.io/tachyonapp/tachyon-workers'',
             tag = WORKERS_SHA\<rparr>),
         (''tachyon-db-migrate'',
            \<lparr>sha = DB_SHA, image = ''ghcr.io/tachyonapp/tachyon-db-migrate'',
             tag = DB_SHA\<rparr>)],
      environments =
        \<lparr>staging = \<lparr>staging_deployed_at = [], staging_deployed_by = []\<rparr>,
         production = \<lparr>production_deployed_at = [], production_deployed_by = [],
                       production_approved_by = []\<rparr>\<rparr>\<rparr>"

text \<open>
  The text of a manifest, laid out as the here-document lays it out, every value pasted
  between double quotes as it is. It is the link between the text that the script writes
  and the structure that the operations below read.
\<close>

definition json_member :: "string \<Rightarrow> string \<Rightarrow> string" where
  "json_member key v = quoted key @ '': '' @ quoted v"

fun service_lines :: "(string \<times> service) list \<Rightarrow> string list" where
  "service_lines [] = []"
| "service_lines ((n, s) # rest) =
     [''    '' @ quoted n @ '': {'',
      ''      '' @ json_member ''sha'' (sha s) @ '','',
      ''      '' @ json_member ''image'' (image s) @ '','',
      ''      '' @ json_member ''tag'' (tag s),
      (if rest = [] then ''    }'' else ''    },'')] @ service_lines rest"

definition manifest_json :: "manifest \<Rightarrow> string" where
  "manifest_json m = unlines
     ([''{'',
       ''  '' @ json_member ''version'' (manifest_version m) @ '','',
       ''  '' @ json_member ''created_at'' (created_at m) @ '','',
       ''  '' @ json_member ''description'' (manifest_description m) @ '','',
       ''  '' @ quoted ''services'' @ '': {'']
      @ service_lines (services m) @
      [''  },'',
       ''  '' @ quoted ''environments'' @ '': {'',
       ''    '' @ quoted ''staging'' @ '': {'',
       ''      '' @ json_member ''deployed_at'' (staging_deployed_at (staging (environments m))) @ '','',
       ''      '' @ json_member ''deployed_by'' (staging_deployed_by (staging (environments m))),
       ''    },'',
       ''    '' @ quoted ''production'' @ '': {'',
       ''      '' @ json_member ''deployed_at''
                      (production_deployed_at (production (environments m))) @ '','',
       ''      '' @ json_member ''deployed_by''
                      (production_deployed_by (production (environments m))) @ '','',
       ''      '' @ json_member ''approved_by''
                      (production_approved_by (production (environments m))),
       ''    }'',
       ''  }'',
       ''}''])"

text \<open>
  Modelled from the spec: \<^verbatim>\<open>recordStagingDeploy(version, actor, timestamp)\<close> of section 4.6.
  The deployment workflows that write the metadata are not among the sources. The
  operation reads the manifest of that version and populates \<^verbatim>\<open>environments.staging\<close>.
\<close>

definition recordStagingDeploy ::
  "string \<Rightarrow> string \<Rightarrow> string \<Rightarrow> manifest option \<Rightarrow> release_error + manifest option" where
  "recordStagingDeploy v actor timestamp file =
     (case file of
        None \<Rightarrow> Inl ManifestNotFound
      | Some m \<Rightarrow>
          if manifest_version m \<noteq> v then Inl ManifestNotFound
          else Inr (Some (m\<lparr>environments := (environments m)
                 \<lparr>staging := \<lparr>staging_deployed_at = timestamp,
                              staging_deployed_by = actor\<rparr>\<rparr>\<rparr>)))"

text \<open>
  Modelled from the spec: \<^verbatim>\<open>recordProductionDeploy(version, actor, approver, timestamp)\<close> of
  section 4.6, which "fails with StagingNotDoneError if \<^verbatim>\<open>environments.staging.deployed_at\<close>
  is unset for that version". Unset is the empty string that \<^verbatim>\<open>create-release.sh\<close> writes.
\<close>

definition recordProductionDeploy ::
  "string \<Rightarrow> string \<Rightarrow> string \<Rightarrow> string \<Rightarrow> manifest option
     \<Rightarrow> release_error + manifest option" where
  "recordProductionDeploy v actor approver timestamp file =
     (case file of
        None \<Rightarrow> Inl ManifestNotFound
      | Some m \<Rightarrow>
          if manifest_version m \<noteq> v then Inl ManifestNotFound
          else if staging_deployed_at (staging (environments m)) = [] then Inl StagingNotDoneError
          else Inr (Some (m\<lparr>environments := (environments m)
                 \<lparr>production := \<lparr>production_deployed_at = timestamp,
                                 production_deployed_by = actor,
                                 production_approved_by = approver\<rparr>\<rparr>\<rparr>)))"

text \<open>The staging-first invariant of a manifest file.\<close>

definition staging_first :: "manifest option \<Rightarrow> bool" where
  "staging_first file =
     (case file of
        None \<Rightarrow> True
      | Some m \<Rightarrow>
          production_deployed_at (production (environments m)) \<noteq> [] \<longrightarrow>
          staging_deployed_at (staging (environments m)) \<noteq> [])"

section \<open>Fixtures for the concrete runs\<close>

text \<open>
  Collaborators for the concrete runs below: the files of five units, a stand-in for the
  digest (the theorems hold for every digest function), an audit storage that counts
  events, and a server that appends each statement it executes to \<open>objects\<close>. It rejects
  the text of unit 002 at once. Of the text of unit 003 it executes the first statement
  and rejects the second, inside the open transaction. The text of unit 004 commits after
  its first statement, so that the first statement stays and no transaction is open when
  the second is rejected. The text of unit 005 empties the tracking table.
\<close>

definition test_externals :: "(string list, nat) externals" where
  "test_externals =
     \<lparr>readFileSync = map_of
        [(''db/001_initial_schema.sql'', ''CREATE TABLE users (id bigserial)''),
         (''db/002_broken.sql'', ''CREATE TABLE''),
         (''db/003_partial.sql'', ''CREATE TABLE a (id int); CREATE TABLE a (id int)''),
         (''db/004_commits.sql'', ''CREATE TABLE a (id int); COMMIT; CREATE TABLE a (id int)''),
         (''db/005_forgets.sql'', ''DELETE FROM schema_migrations'')],
      sha256 = (\<lambda>content. ''sha256 of '' @ content),
      exec_sql = (\<lambda>text (d, s).
         if text = ''CREATE TABLE'' then (Some (ServerError ''syntax error''), d, s)
         else if text = ''CREATE TABLE a (id int); CREATE TABLE a (id int)''
         then (Some (ServerError ''relation a already exists''),
               d\<lparr>objects := objects d @ [''CREATE TABLE a (id int)'']\<rparr>, s)
         else if text = ''CREATE TABLE a (id int); COMMIT; CREATE TABLE a (id int)''
         then (Some (ServerError ''relation a already exists''),
               d\<lparr>objects := objects d @ [''CREATE TABLE a (id int)'']\<rparr>, None)
         else if text = ''DELETE FROM schema_migrations''
         then (None, d\<lparr>schema_migrations := map_option (\<lambda>rows. []) (schema_migrations d)\<rparr>, s)
         else (None, d\<lparr>objects := objects d @ [text]\<rparr>, s)),
      now = 1700000000,
      audit_table_exists = (\<lambda>a. Inr True),
      audit_insert = (\<lambda>eventType details a. Inr (Suc a))\<rparr>"

text \<open>A tracking row written by an earlier run, and the units of the files above.\<close>

definition test_row :: "string \<Rightarrow> string \<Rightarrow> migration_row" where
  "test_row v c = \<lparr>row_version = v, row_description = ''Initial APPI compliant schema with encrypted PII fields'',
      row_applied_at = 1600000000, row_checksum = c, row_environment = ''local''\<rparr>"

definition broken_unit :: MigrationFile where
  "broken_unit = \<lparr>filename = ''002_broken.sql'', version = ''002'', description = ''broken'',
                   path = ''db/002_broken.sql''\<rparr>"

definition partial_unit :: MigrationFile where
  "partial_unit = \<lparr>filename = ''003_partial.sql'', version = ''003'', description = ''partial'',
                    path = ''db/003_partial.sql''\<rparr>"

definition committing_unit :: MigrationFile where
  "committing_unit = \<lparr>filename = ''004_commits.sql'', version = ''004'',
                       description = ''commits'', path = ''db/004_commits.sql''\<rparr>"

definition forgetting_unit :: MigrationFile where
  "forgetting_unit = \<lparr>filename = ''005_forgets.sql'', version = ''005'',
                       description = ''forgets'', path = ''db/005_forgets.sql''\<rparr>"

text \<open>
  The first unit under a version of 51 characters, \<^verbatim>\<open>001\<close> and 48 spaces: one more than
  the \<^verbatim>\<open>version\<close> column holds.
\<close>

definition padded_unit :: MigrationFile where
  "padded_unit = \<lparr>filename = ''001_initial_schema.sql'',
                   version = ''001                                                '',
                   description = ''padded'', path = ''db/001_initial_schema.sql''\<rparr>"

text \<open>Collaborators whose audit table exists and rejects every insert.\<close>

definition failing_audit :: "(string list, nat) externals" where
  "failing_audit =
     test_externals\<lparr>audit_insert := (\<lambda>eventType details a. Inl (ServerError ''audit_events: permission denied''))\<rparr>"

text \<open>A context that requires the operator to type \<^verbatim>\<open>yes\<close>.\<close>

definition test_context :: "nat MigrationContext" where
  "test_context =
     \<lparr>environment = ''local'',
      config = \<lparr>name = ''local'', envFile = ''.env.local'', requiresConfirmation = True,
                confirmationKeyword = ''yes'',
                config_description = ''Local Docker PostgreSQL (Safe)''\<rparr>,
      dbConfig = loadLocalConfig (\<lambda>s. 5432) Map.empty,
      isCI = False, autoConfirm = False\<rparr>"

text \<open>The manifest shown in \<^verbatim>\<open>releases/README.md\<close>, staging recorded, production not yet.\<close>

definition test_manifest :: manifest where
  "test_manifest =
     \<lparr>manifest_version = ''0.2.0'',
      created_at = ''2026-02-23T12:00:00Z'',
      manifest_description = ''Initial infrastructure stub release'',
      services =
        [(''tachyon-api'',
            \<lparr>sha = ''abc1234'', image = ''ghcr.io/tachyonapp/tachyon-api'', tag = ''abc1234''\<rparr>),
         (''tachyon-workers'',
            \<lparr>sha = ''def5678'', image = ''ghcr.io/tachyonapp/tachyon-workers'', tag = ''def5678''\<rparr>),
         (''tachyon-db-migrate'',
            \<lparr>sha = ''ghi9012'', image = ''ghcr.io/tachyonapp/tachyon-db-migrate'',
             tag = ''ghi9012''\<rparr>)],
      environments =
        \<lparr>staging = \<lparr>staging_deployed_at = ''2026-02-23T12:05:00Z'',
                     staging_deployed_by = ''engineer''\<rparr>,
         production = \<lparr>production_deployed_at = [], production_deployed_by = [],
                        production_approved_by = []\<rparr>\<rparr>\<rparr>"

section \<open>Lemmas about the connection layer and the migrator\<close>


lemma fst_andThen:
  "fst (andThen f g w) = (case fst (f w) of Inl e \<Rightarrow> Inl e | Inr r \<Rightarrow> fst (g r (snd (f w))))"
  by (simp add: andThen_def split: prod.splits sum.splits)

lemma snd_andThen:
  "snd (andThen f g w) = (case fst (f w) of Inl e \<Rightarrow> snd (f w) | Inr r \<Rightarrow> snd (g r (snd (f w))))"
  by (simp add: andThen_def split: prod.splits sum.splits)

lemma fst_logAuditEvent: "fst (logAuditEvent E t d w) = Inr ()"
  by (simp add: logAuditEvent_def split: prod.splits sum.splits)

lemma snd_logAuditEvent:
  "pool (snd (logAuditEvent E t d w)) = pool w"
  "db (snd (logAuditEvent E t d w)) = db w"
  "saved (snd (logAuditEvent E t d w)) = saved w"
  by (auto simp: logAuditEvent_def logAuditEvent_try_def split: prod.splits sum.splits if_splits)

lemma fst_getConnection:
  "fst (getConnection E w) = (if pool w then Inr () else Inl PoolNotInitialized)"
  by (simp add: getConnection_def fst_logAuditEvent)

lemma snd_getConnection:
  "pool (snd (getConnection E w)) = pool w"
  "db (snd (getConnection E w)) = db w"
  "saved (snd (getConnection E w)) = saved w"
  by (simp_all add: getConnection_def snd_logAuditEvent)

lemma fst_client_query:
  "fst (client_query run w) = (case run (db w) of Inl e \<Rightarrow> Inl e | Inr p \<Rightarrow> Inr (fst p))"
  by (simp add: client_query_def split: sum.splits prod.splits)

lemma snd_client_query:
  "pool (snd (client_query run w)) = pool w"
  "db (snd (client_query run w)) = (case run (db w) of Inl e \<Rightarrow> db w | Inr p \<Rightarrow> snd p)"
  "saved (snd (client_query run w)) = saved w"
  by (simp_all add: client_query_def split: sum.splits prod.splits)

lemma fst_query:
  "fst (query E text run w) =
     (if pool w then (case run (db w) of Inl e \<Rightarrow> Inl e | Inr p \<Rightarrow> Inr (fst p))
      else Inl PoolNotInitialized)"
  by (simp add: query_def fst_andThen snd_andThen fst_getConnection snd_getConnection
      fst_logAuditEvent snd_logAuditEvent fst_client_query)

lemma snd_query:
  "pool (snd (query E text run w)) = pool w"
  "db (snd (query E text run w)) =
     (if pool w then (case run (db w) of Inl e \<Rightarrow> db w | Inr p \<Rightarrow> snd p) else db w)"
  "saved (snd (query E text run w)) = saved w"
  by (simp_all add: query_def fst_andThen snd_andThen fst_getConnection snd_getConnection
      fst_logAuditEvent snd_logAuditEvent snd_client_query split: sum.splits)

lemma fst_transaction_try:
  "fst (transaction_try E cb w) =
     fst (cb (snd (logAuditEvent E ''data_access'' ''Transaction started'' (client_begin w))))"
  by (simp add: transaction_try_def fst_andThen snd_andThen fst_logAuditEvent split: sum.splits)

lemma fst_rollback_on_error:
  "fst (case p of (Inl e, w') \<Rightarrow> (Inl e, f w') | (Inr r, w') \<Rightarrow> (Inr r, w')) = fst p"
  by (simp split: prod.splits sum.splits)

lemma fst_transaction:
  "fst (transaction E cb w) =
     (if pool w
      then fst (cb (snd (logAuditEvent E ''data_access'' ''Transaction started''
                      (client_begin (snd (getConnection E w))))))
      else Inl PoolNotInitialized)"
  by (simp add: transaction_def fst_andThen fst_getConnection fst_rollback_on_error
      fst_transaction_try)

lemma snd_transaction_closed: "\<not> pool w \<Longrightarrow> snd (transaction E cb w) = w"
  by (simp add: transaction_def andThen_def getConnection_def)

lemma andThen_Inr: "fst (f w) = Inr r \<Longrightarrow> andThen f g w = g r (snd (f w))"
  by (cases "f w") (simp add: andThen_def)

lemma andThen_Inl: "fst (f w) = Inl e \<Longrightarrow> andThen f g w = (Inl e, snd (f w))"
  by (cases "f w") (simp add: andThen_def)

lemma andThen_audit:
  "andThen (logAuditEvent E t d) g w = g () (snd (logAuditEvent E t d w))"
  by (rule andThen_Inr) (rule fst_logAuditEvent)

lemma transaction_try_eq:
  assumes "cb (snd (logAuditEvent E ''data_access'' ''Transaction started'' (client_begin w))) = (res, w')"
  shows "transaction_try E cb w =
           (case res of
              Inl e \<Rightarrow> (Inl e, w')
            | Inr r \<Rightarrow> (Inr r, snd (logAuditEvent E ''data_access'' ''Transaction committed''
                                      (client_commit w'))))"
proof -
  have "transaction_try E cb w =
      andThen cb (\<lambda>result w'. (Inr result,
          snd (logAuditEvent E ''data_access'' ''Transaction committed'' (client_commit w'))))
        (snd (logAuditEvent E ''data_access'' ''Transaction started'' (client_begin w)))"
    by (simp add: transaction_try_def andThen_audit)
  with assms show ?thesis
    by (cases res) (simp_all add: andThen_def)
qed

lemma transaction_eq:
  assumes "pool w"
    and "cb (snd (logAuditEvent E ''data_access'' ''Transaction started''
                      (client_begin (snd (getConnection E w))))) = (res, w')"
  shows "transaction E cb w =
           (case res of
              Inl e \<Rightarrow> (Inl e, client_rollback w')
            | Inr r \<Rightarrow> (Inr r, snd (logAuditEvent E ''data_access'' ''Transaction committed''
                                      (client_commit w'))))"
proof -
  have "fst (getConnection E w) = Inr ()"
    using assms(1) by (simp add: fst_getConnection)
  then have "transaction E cb w =
      (case transaction_try E cb (snd (getConnection E w)) of
         (Inl e, w') \<Rightarrow> (Inl e, client_rollback w')
       | (Inr result, w') \<Rightarrow> (Inr result, w'))"
    unfolding transaction_def by (rule andThen_Inr)
  then show ?thesis
    by (cases res) (simp_all add: transaction_try_eq [where cb = cb, OF assms(2)])
qed

lemma first_row_find:
  "(case map f (filter P rows) of [] \<Rightarrow> None | r # rs \<Rightarrow> Some r) = map_option f (find P rows)"
  by (induction rows) auto

lemma fst_isMigrationApplied:
  "fst (isMigrationApplied E v w) =
     (if pool w then
        (case schema_migrations (db w) of
           None \<Rightarrow> Inl (ServerError ''relation schema_migrations does not exist'')
         | Some rows \<Rightarrow>
             Inr (map_option (\<lambda>r. (row_checksum r, row_environment r))
                    (find (\<lambda>r. row_version r = v) rows)))
      else Inl PoolNotInitialized)"
  by (simp add: isMigrationApplied_def fst_andThen fst_query sql_select_version_def
      first_row_find split: option.splits)

lemma snd_isMigrationApplied:
  "pool (snd (isMigrationApplied E v w)) = pool w"
  "db (snd (isMigrationApplied E v w)) = db w"
  "saved (snd (isMigrationApplied E v w)) = saved w"
  by (simp_all add: isMigrationApplied_def snd_andThen fst_query snd_query
      sql_select_version_def split: option.splits sum.splits)

lemmas pg_simps =
  fst_logAuditEvent snd_logAuditEvent fst_getConnection snd_getConnection
  fst_query snd_query fst_isMigrationApplied snd_isMigrationApplied

lemma applyMigration_no_file:
  "readFileSync E (path m) = None \<Longrightarrow> applyMigration E env m w = (Inl (FileError (path m)), w)"
  by (simp add: applyMigration_def)


lemma applyMigration_present:
  assumes "pool w" and "schema_migrations (db w) = Some rows"
    and "readFileSync E (path m) = Some c"
    and "find (\<lambda>r. row_version r = version m) rows = Some r"
  shows "applyMigration E env m w =
           (if row_checksum r = sha256 E c then Inr ()
            else Inl (ChecksumMismatch (version m) (row_checksum r) (sha256 E c)),
            snd (isMigrationApplied E (version m) w))"
proof -
  have "fst (isMigrationApplied E (version m) w) = Inr (Some (row_checksum r, row_environment r))"
    using assms by (simp add: fst_isMigrationApplied)
  then show ?thesis
    using assms(3) by (simp add: applyMigration_def andThen_Inr generateChecksum_def)
qed

lemma applyMigration_pending:
  assumes "pool w" and "schema_migrations (db w) = Some rows"
    and "readFileSync E (path m) = Some c"
    and "find (\<lambda>r. row_version r = version m) rows = None"
    and "exec_sql E c (db w, Some (db w)) = (err, d', s')"
  shows "fst (applyMigration E env m w) =
           (case err of
              Some e \<Rightarrow> Inl e
            | None \<Rightarrow>
               (case sql_insert_migration (now E) (version m) (description m) (sha256 E c) env d' of
                  Inl e \<Rightarrow> Inl e
                | Inr p \<Rightarrow> Inr ()))"
    and "db (snd (applyMigration E env m w)) =
           (case err of
              Some e \<Rightarrow> rolled_back (d', s')
            | None \<Rightarrow>
               (case sql_insert_migration (now E) (version m) (description m) (sha256 E c) env d' of
                  Inl e \<Rightarrow> rolled_back (d', s')
                | Inr p \<Rightarrow> snd p))"
    and "pool (snd (applyMigration E env m w))"
    and "saved (snd (applyMigration E env m w)) = None"
proof -
  let ?ins = "sql_insert_migration (now E) (version m) (description m) (sha256 E c) env"
  let ?cb = "andThen (client_exec E c) (\<lambda>u. client_query ?ins)"
  let ?v = "snd (isMigrationApplied E (version m) w)"
  let ?W = "snd (logAuditEvent E ''data_access'' ''Transaction started''
                      (client_begin (snd (getConnection E ?v))))"
  have "fst (isMigrationApplied E (version m) w) = Inr None"
    using assms(1,2,4) by (simp add: fst_isMigrationApplied)
  then have ap: "applyMigration E env m w = transaction E ?cb ?v"
    using assms(3) by (simp add: applyMigration_def andThen_Inr generateChecksum_def)
  have p0: "pool ?v" using assms(1) by (simp add: pg_simps)
  have W: "pool ?W" "db ?W = db w" "saved ?W = Some (db w)"
    using assms(1) by (simp_all add: pg_simps client_begin_def)
  have x: "exec_sql E c (db ?W, saved ?W) = (err, d', s')"
    using assms(5) W by simp
  obtain res w' where cb: "?cb ?W = (res, w')" by (cases "?cb ?W")
  note tx = transaction_eq [where cb = ?cb, OF p0 cb]
  have r: "res = (case err of
              Some e \<Rightarrow> Inl e
            | None \<Rightarrow> (case ?ins d' of Inl e \<Rightarrow> Inl e | Inr p \<Rightarrow> Inr ()))"
    using cb x by (auto simp: andThen_def client_query_def client_exec_def
        split: sum.splits prod.splits option.splits)
  have d: "db w' = (case err of
              Some e \<Rightarrow> d'
            | None \<Rightarrow> (case ?ins d' of Inl e \<Rightarrow> d' | Inr p \<Rightarrow> snd p))"
    using cb x by (auto simp: andThen_def client_query_def client_exec_def
        split: sum.splits prod.splits option.splits)
  have o: "pool w'" "saved w' = s'"
    using cb x W(1) by (auto simp: andThen_def client_query_def client_exec_def
        split: sum.splits prod.splits option.splits)
  show "fst (applyMigration E env m w) =
           (case err of
              Some e \<Rightarrow> Inl e
            | None \<Rightarrow> (case ?ins d' of Inl e \<Rightarrow> Inl e | Inr p \<Rightarrow> Inr ()))"
    unfolding ap tx r by (simp split: sum.splits option.splits)
  show "db (snd (applyMigration E env m w)) =
           (case err of
              Some e \<Rightarrow> rolled_back (d', s')
            | None \<Rightarrow> (case ?ins d' of Inl e \<Rightarrow> rolled_back (d', s') | Inr p \<Rightarrow> snd p))"
    unfolding ap tx using r d o
    by (simp add: client_rollback_def client_commit_def snd_logAuditEvent rolled_back_def
        split: sum.splits option.splits)
  show "pool (snd (applyMigration E env m w))"
    unfolding ap tx using o
    by (simp add: client_rollback_def client_commit_def snd_logAuditEvent
        split: sum.splits option.splits)
  show "saved (snd (applyMigration E env m w)) = None"
    unfolding ap tx using o
    by (simp add: client_rollback_def client_commit_def snd_logAuditEvent
        split: sum.splits option.splits)
qed





lemma migrate_loop_Cons:
  "migrate_loop E env (m # rest) n =
     andThen (isMigrationApplied E (version m)) (\<lambda>wasApplied.
     andThen (applyMigration E env m) (\<lambda>u.
       migrate_loop E env rest (if wasApplied = None then n + 1 else n)))"
  by (rule ext) simp

lemma migrate_loop_Nil: "migrate_loop E env [] n = (\<lambda>w. (Inr n, w))"
  by (rule ext) simp





declare migrate_loop.simps [simp del]



lemma healthCheck_eq:
  "healthCheck E w = (Inr (pool w), snd (query E ''SELECT 1 as health_check'' sql_select_1 w))"
proof -
  have "fst (query E ''SELECT 1 as health_check'' sql_select_1 w) =
          (if pool w then Inr () else Inl PoolNotInitialized)"
    by (simp add: fst_query sql_select_1_def)
  then show ?thesis
    by (cases "query E ''SELECT 1 as health_check'' sql_select_1 w")
       (auto simp: healthCheck_def split: if_splits)
qed

lemma snd_healthCheck:
  "pool (snd (healthCheck E w)) = pool w"
  "db (snd (healthCheck E w)) = db w"
  "saved (snd (healthCheck E w)) = saved w"
  by (simp_all add: healthCheck_eq snd_query sql_select_1_def)

lemma fst_createMigrationsTable:
  "fst (createMigrationsTable E w) = (if pool w then Inr () else Inl PoolNotInitialized)"
  by (simp add: createMigrationsTable_def fst_query sql_create_table_def)

lemma snd_createMigrationsTable:
  "pool (snd (createMigrationsTable E w)) = pool w"
  "db (snd (createMigrationsTable E w)) =
     (if pool w then (case schema_migrations (db w) of
                        None \<Rightarrow> (db w)\<lparr>schema_migrations := Some []\<rparr>
                      | Some rows \<Rightarrow> db w)
      else db w)"
  "saved (snd (createMigrationsTable E w)) = saved w"
  by (simp_all add: createMigrationsTable_def snd_query sql_create_table_def)

lemma migrate_closed: "\<not> pool w \<Longrightarrow> fst (migrate E env cat w) = Inl DatabaseUnhealthy"
  by (simp add: migrate_def andThen_def healthCheck_eq)

lemma migrate_open:
  assumes "pool w"
  shows "migrate E env cat w =
           (case migrate_loop E env cat 0 (snd (createMigrationsTable E (snd (healthCheck E w)))) of
              (Inl e, w') \<Rightarrow> (Inl e, w')
            | (Inr n, w') \<Rightarrow> (Inr n, close w'))"
proof -
  have "fst (createMigrationsTable E (snd (healthCheck E w))) = Inr ()"
    using assms by (simp add: fst_createMigrationsTable snd_healthCheck)
  then have "andThen (createMigrationsTable E) (\<lambda>u. migrate_loop E env cat 0) (snd (healthCheck E w))
      = migrate_loop E env cat 0 (snd (createMigrationsTable E (snd (healthCheck E w))))"
    by (rule andThen_Inr)
  then show ?thesis
    using assms by (simp add: migrate_def andThen_def healthCheck_eq)
qed

lemma db_close: "db (close w) = db w"
  by (simp add: close_def)

text \<open>The definitions that a concrete run unfolds.\<close>

lemmas run_defs =
  andThen_def isMigrationApplied_def query_def getConnection_def logAuditEvent_def
  logAuditEvent_try_def client_query_def client_exec_def sql_select_version_def
  sql_insert_migration_def store_varchar_def sql_create_table_def sql_select_1_def
  sql_select_all_def applyMigration_def generateChecksum_def transaction_def
  transaction_try_def client_begin_def client_commit_def client_rollback_def
  healthCheck_def createMigrationsTable_def close_def connect_def

section \<open>Checksum drift\<close>

text \<open>
  Claim C1. A unit whose version has a tracking row with another checksum than the digest
  of its current content: \<open>applyMigration\<close>, the loop and \<open>migrate\<close> all throw the checksum
  mismatch error, and the database is the one before the call, objects and tracking table
  alike, whatever \<open>exec_sql\<close> would do: the content is not executed.
\<close>

theorem applyMigration_drift:
  assumes "pool w" and "schema_migrations (db w) = Some rows"
    and "readFileSync E (path m) = Some content"
    and "find (\<lambda>r. row_version r = version m) rows = Some r"
    and "row_checksum r \<noteq> sha256 E content"
  shows "fst (applyMigration E env m w)
           = Inl (ChecksumMismatch (version m) (row_checksum r) (sha256 E content))
       \<and> db (snd (applyMigration E env m w)) = db w
       \<and> fst (migrate_loop E env (m # rest) n w)
           = Inl (ChecksumMismatch (version m) (row_checksum r) (sha256 E content))
       \<and> db (snd (migrate_loop E env (m # rest) n w)) = db w
       \<and> fst (migrate E env (m # rest) w)
           = Inl (ChecksumMismatch (version m) (row_checksum r) (sha256 E content))
       \<and> db (snd (migrate E env (m # rest) w)) = db w"
proof -
  let ?err = "Inl (ChecksumMismatch (version m) (row_checksum r) (sha256 E content))"
  have step: "\<And>w. pool w \<Longrightarrow> schema_migrations (db w) = Some rows \<Longrightarrow>
      fst (applyMigration E env m w) = ?err \<and> db (snd (applyMigration E env m w)) = db w"
    using assms(3-5) by (simp add: applyMigration_present snd_isMigrationApplied)
  have loop: "fst (migrate_loop E env (m # rest) n w) = ?err
      \<and> db (snd (migrate_loop E env (m # rest) n w)) = db w"
    if "pool w" and "schema_migrations (db w) = Some rows" for w :: "('a, 'b) pg" and n
  proof -
    let ?w1 = "snd (isMigrationApplied E (version m) w)"
    have "fst (isMigrationApplied E (version m) w)
            = Inr (Some (row_checksum r, row_environment r))"
      using that assms(4) by (simp add: fst_isMigrationApplied)
    then have "migrate_loop E env (m # rest) n w =
        andThen (applyMigration E env m) (\<lambda>u. migrate_loop E env rest n) ?w1"
      by (simp add: migrate_loop_Cons andThen_Inr)
    moreover have "fst (applyMigration E env m ?w1) = ?err \<and>
        db (snd (applyMigration E env m ?w1)) = db ?w1"
      using that by (intro step) (simp_all add: snd_isMigrationApplied)
    ultimately show ?thesis
      by (simp add: andThen_Inl snd_isMigrationApplied)
  qed
  let ?w0 = "snd (createMigrationsTable E (snd (healthCheck E w)))"
  have w0: "pool ?w0" "db ?w0 = db w"
    using assms(1,2) by (simp_all add: snd_createMigrationsTable snd_healthCheck)
  then have "fst (migrate_loop E env (m # rest) 0 ?w0) = ?err
      \<and> db (snd (migrate_loop E env (m # rest) 0 ?w0)) = db w"
    using loop [of ?w0 0] assms(2) by simp
  then have "fst (migrate E env (m # rest) w) = ?err \<and> db (snd (migrate E env (m # rest) w)) = db w"
    unfolding migrate_open [OF assms(1)]
    by (cases "migrate_loop E env (m # rest) 0 ?w0") auto
  with step [OF assms(1,2)] loop [OF assms(1,2)] show ?thesis by blast
qed

theorem applyMigration_drift_witness:
  "fst (migrate test_externals ''local'' (MIGRATIONS ''db'')
          (connect \<lparr>objects = [], schema_migrations = Some [test_row ''001'' ''sha256 of DROP TABLE users'']\<rparr> 0))
     = Inl (ChecksumMismatch ''001'' ''sha256 of DROP TABLE users''
              ''sha256 of CREATE TABLE users (id bigserial)'')
   \<and> db (snd (migrate test_externals ''local'' (MIGRATIONS ''db'')
          (connect \<lparr>objects = [], schema_migrations = Some [test_row ''001'' ''sha256 of DROP TABLE users'']\<rparr> 0)))
     = \<lparr>objects = [], schema_migrations = Some [test_row ''001'' ''sha256 of DROP TABLE users'']\<rparr>"
proof -
  let ?m = "\<lparr>filename = ''001_initial_schema.sql'', version = ''001'',
       description = ''Initial APPI compliant schema with encrypted PII fields'',
       path = ''db/001_initial_schema.sql''\<rparr>"
  let ?rows = "[test_row ''001'' ''sha256 of DROP TABLE users'']"
  let ?w = "connect \<lparr>objects = ([] :: string list), schema_migrations = Some ?rows\<rparr> (0 :: nat)"
  have h1: "pool ?w" by (simp add: connect_def)
  have h2: "schema_migrations (db ?w) = Some ?rows" by (simp add: connect_def)
  have h3: "readFileSync test_externals (path ?m) = Some ''CREATE TABLE users (id bigserial)''"
    by (simp add: test_externals_def)
  have h4: "find (\<lambda>r. row_version r = version ?m) ?rows = Some (test_row ''001'' ''sha256 of DROP TABLE users'')"
    by (simp add: test_row_def)
  have h5: "row_checksum (test_row ''001'' ''sha256 of DROP TABLE users'')
      \<noteq> sha256 test_externals ''CREATE TABLE users (id bigserial)''"
    by (simp add: test_externals_def test_row_def)
  from applyMigration_drift [OF h1 h2 h3 h4 h5, of "''local''" "[]" 0]
  show ?thesis
    by (simp add: MIGRATIONS_def connect_def test_externals_def test_row_def)
qed


section \<open>Transactional apply\<close>

text \<open>
  Claim C4 as stated fails for a unit whose text ends the transaction itself. The text of
  unit 004 creates a table, commits, and then fails: \<open>applyMigration\<close> throws the error, the
  \<^verbatim>\<open>ROLLBACK\<close> that answers it finds no transaction to undo, and the database keeps the new
  table while the tracking table has no row for the unit.
\<close>

theorem applyMigration_atomic_counterexample:
  "fst (applyMigration test_externals ''local'' committing_unit
          (connect \<lparr>objects = [], schema_migrations = Some []\<rparr> 0))
     = Inl (ServerError ''relation a already exists'')
   \<and> db (snd (applyMigration test_externals ''local'' committing_unit
          (connect \<lparr>objects = [], schema_migrations = Some []\<rparr> 0)))
     = \<lparr>objects = [''CREATE TABLE a (id int)''], schema_migrations = Some []\<rparr>"
  by (simp add: committing_unit_def run_defs test_externals_def)

text \<open>
  Claim C4, amended. For a pending unit, \<open>applyMigration\<close> is one call of \<open>transaction\<close>
  whose callback runs the content and then the insert of the tracking row. Let the text
  of the unit leave that transaction open, as a text without \<^verbatim>\<open>COMMIT\<close> or \<^verbatim>\<open>ROLLBACK\<close> does.
  When the content fails, whatever its statements did before, or when the content
  succeeds and the insert fails, the error is thrown and the database, objects and
  tracking table, is the one before the unit; otherwise the database is the one the
  content left, with the tracking row inserted. No transaction is open afterwards.
\<close>

theorem applyMigration_atomic:
  assumes "pool w" and "schema_migrations (db w) = Some rows"
    and "readFileSync E (path m) = Some content"
    and "find (\<lambda>r. row_version r = version m) rows = None"
    and "exec_sql E content (db w, Some (db w)) = (err, d', Some (db w))"
  shows "(\<forall>e. err = Some e \<longrightarrow>
            fst (applyMigration E env m w) = Inl e \<and> db (snd (applyMigration E env m w)) = db w)
       \<and> (err = None \<longrightarrow>
            (case sql_insert_migration (now E) (version m) (description m)
                    (sha256 E content) env d' of
               Inl e \<Rightarrow> fst (applyMigration E env m w) = Inl e
                        \<and> db (snd (applyMigration E env m w)) = db w
             | Inr p \<Rightarrow> fst (applyMigration E env m w) = Inr ()
                        \<and> db (snd (applyMigration E env m w)) = snd p))
       \<and> (\<forall>e. fst (applyMigration E env m w) = Inl e \<longrightarrow>
             objects (db (snd (applyMigration E env m w))) = objects (db w)
           \<and> schema_migrations (db (snd (applyMigration E env m w))) = Some rows)
       \<and> saved (snd (applyMigration E env m w)) = None
       \<and> applyMigration E env m w =
           transaction E
             (andThen (client_exec E content) (\<lambda>u.
              client_query (sql_insert_migration (now E) (version m) (description m)
                (sha256 E content) env)))
             (snd (isMigrationApplied E (version m) w))"
proof -
  note ap = applyMigration_pending [OF assms, of env]
  have "fst (isMigrationApplied E (version m) w) = Inr None"
    using assms(1,2,4) by (simp add: fst_isMigrationApplied)
  then have tx: "applyMigration E env m w =
           transaction E
             (andThen (client_exec E content) (\<lambda>u.
              client_query (sql_insert_migration (now E) (version m) (description m)
                (sha256 E content) env)))
             (snd (isMigrationApplied E (version m) w))"
    using assms(3) by (simp add: applyMigration_def andThen_Inr generateChecksum_def)
  have a: "\<forall>e. err = Some e \<longrightarrow>
            fst (applyMigration E env m w) = Inl e \<and> db (snd (applyMigration E env m w)) = db w"
    by (simp add: ap(1,2) rolled_back_def)
  have b: "err = None \<longrightarrow>
            (case sql_insert_migration (now E) (version m) (description m)
                    (sha256 E content) env d' of
               Inl e \<Rightarrow> fst (applyMigration E env m w) = Inl e
                        \<and> db (snd (applyMigration E env m w)) = db w
             | Inr p \<Rightarrow> fst (applyMigration E env m w) = Inr ()
                        \<and> db (snd (applyMigration E env m w)) = snd p)"
    by (simp add: ap(1,2) rolled_back_def split: sum.splits)
  have "db (snd (applyMigration E env m w)) = db w" if "fst (applyMigration E env m w) = Inl e" for e
    using that ap(1,2) by (auto simp: rolled_back_def split: option.splits sum.splits)
  then have c: "\<forall>e. fst (applyMigration E env m w) = Inl e \<longrightarrow>
             objects (db (snd (applyMigration E env m w))) = objects (db w)
           \<and> schema_migrations (db (snd (applyMigration E env m w))) = Some rows"
    using assms(2) by simp
  from a b c ap(4) tx show ?thesis by blast
qed

theorem applyMigration_atomic_witness:
  "fst (applyMigration test_externals ''local'' partial_unit
          (connect \<lparr>objects = [''CREATE TABLE users (id bigserial)''],
                    schema_migrations = Some [test_row ''001'' ''x'']\<rparr> 0))
     = Inl (ServerError ''relation a already exists'')
   \<and> db (snd (applyMigration test_externals ''local'' partial_unit
          (connect \<lparr>objects = [''CREATE TABLE users (id bigserial)''],
                    schema_migrations = Some [test_row ''001'' ''x'']\<rparr> 0)))
     = \<lparr>objects = [''CREATE TABLE users (id bigserial)''],
        schema_migrations = Some [test_row ''001'' ''x'']\<rparr>
   \<and> fst (applyMigration test_externals ''an environment name that is too long''
          (hd (MIGRATIONS ''db'')) (connect \<lparr>objects = [], schema_migrations = Some []\<rparr> 0))
     = Inl (ServerError ''value too long for type character varying'')
   \<and> db (snd (applyMigration test_externals ''an environment name that is too long''
          (hd (MIGRATIONS ''db'')) (connect \<lparr>objects = [], schema_migrations = Some []\<rparr> 0)))
     = \<lparr>objects = [], schema_migrations = Some []\<rparr>
   \<and> fst (applyMigration test_externals ''local'' (hd (MIGRATIONS ''db''))
          (connect \<lparr>objects = [], schema_migrations = Some []\<rparr> 0)) = Inr ()
   \<and> db (snd (applyMigration test_externals ''local'' (hd (MIGRATIONS ''db''))
          (connect \<lparr>objects = [], schema_migrations = Some []\<rparr> 0)))
     = \<lparr>objects = [''CREATE TABLE users (id bigserial)''],
        schema_migrations = Some [\<lparr>row_version = ''001'',
          row_description = ''Initial APPI compliant schema with encrypted PII fields'',
          row_applied_at = 1700000000,
          row_checksum = ''sha256 of CREATE TABLE users (id bigserial)'',
          row_environment = ''local''\<rparr>]\<rparr>"
proof -
  let ?w = "connect \<lparr>objects = [''CREATE TABLE users (id bigserial)''],
                    schema_migrations = Some [test_row ''001'' ''x'']\<rparr> (0 :: nat)"
  let ?v = "connect \<lparr>objects = ([] :: string list), schema_migrations = Some []\<rparr> (0 :: nat)"
  let ?first = "hd (MIGRATIONS ''db'')"
  have "pool ?w" and "schema_migrations (db ?w) = Some [test_row ''001'' ''x'']"
    and "readFileSync test_externals (path partial_unit)
           = Some ''CREATE TABLE a (id int); CREATE TABLE a (id int)''"
    and "find (\<lambda>r. row_version r = version partial_unit) [test_row ''001'' ''x''] = None"
    and "exec_sql test_externals ''CREATE TABLE a (id int); CREATE TABLE a (id int)''
           (db ?w, Some (db ?w))
         = (Some (ServerError ''relation a already exists''),
            \<lparr>objects = [''CREATE TABLE users (id bigserial)'', ''CREATE TABLE a (id int)''],
              schema_migrations = Some [test_row ''001'' ''x'']\<rparr>, Some (db ?w))"
    by (simp_all add: connect_def test_externals_def test_row_def partial_unit_def)
  from applyMigration_atomic [OF this, of "''local''", THEN conjunct1]
  have undone: "fst (applyMigration test_externals ''local'' partial_unit ?w)
        = Inl (ServerError ''relation a already exists'')
      \<and> db (snd (applyMigration test_externals ''local'' partial_unit ?w)) = db ?w"
    by simp
  have v: "pool ?v" "schema_migrations (db ?v) = Some []"
    "readFileSync test_externals (path ?first) = Some ''CREATE TABLE users (id bigserial)''"
    "find (\<lambda>r. row_version r = version ?first) [] = None"
    "exec_sql test_externals ''CREATE TABLE users (id bigserial)'' (db ?v, Some (db ?v))
       = (None, \<lparr>objects = [''CREATE TABLE users (id bigserial)''],
                  schema_migrations = Some []\<rparr>, Some (db ?v))"
    by (simp_all add: connect_def test_externals_def MIGRATIONS_def)
  from applyMigration_atomic [OF v, of "''an environment name that is too long''",
      THEN conjunct2, THEN conjunct1]
  have rejected: "fst (applyMigration test_externals ''an environment name that is too long'' ?first ?v)
        = Inl (ServerError ''value too long for type character varying'')
      \<and> db (snd (applyMigration test_externals ''an environment name that is too long'' ?first ?v))
        = db ?v"
    by (simp add: sql_insert_migration_def store_varchar_def test_externals_def MIGRATIONS_def)
  from applyMigration_atomic [OF v, of "''local''", THEN conjunct2, THEN conjunct1]
  have good: "fst (applyMigration test_externals ''local'' ?first ?v) = Inr ()
   \<and> db (snd (applyMigration test_externals ''local'' ?first ?v))
     = \<lparr>objects = [''CREATE TABLE users (id bigserial)''],
        schema_migrations = Some [\<lparr>row_version = ''001'',
          row_description = ''Initial APPI compliant schema with encrypted PII fields'',
          row_applied_at = 1700000000,
          row_checksum = ''sha256 of CREATE TABLE users (id bigserial)'',
          row_environment = ''local''\<rparr>]\<rparr>"
    by (simp add: sql_insert_migration_def store_varchar_def test_externals_def MIGRATIONS_def)
  from undone rejected good show ?thesis by (simp add: connect_def)
qed

section \<open>Catalog order and the first failure\<close>





section \<open>The confirmation gate\<close>

lemma trim_blank:
  assumes "\<forall>c\<in>set s. js_whitespace c"
  shows "trim s = []"
proof -
  have blank: "dropWhile js_whitespace s = []"
    using assms by simp
  show ?thesis
    unfolding trim_def blank by simp
qed

lemma trim_core:
  assumes "\<forall>c\<in>set pre. js_whitespace c" and "\<forall>c\<in>set post. js_whitespace c"
    and "core \<noteq> []" and "\<not> js_whitespace (hd core)" and "\<not> js_whitespace (last core)"
  shows "trim (pre @ core @ post) = core"
proof -
  have "dropWhile js_whitespace (pre @ core @ post) = dropWhile js_whitespace (core @ post)"
    by (rule dropWhile_append2) (use assms(1) in auto)
  also have "\<dots> = core @ post"
    using assms(3,4) by (cases core) simp_all
  finally have front: "dropWhile js_whitespace (pre @ core @ post) = core @ post" .
  have "dropWhile js_whitespace (rev post @ rev core) = dropWhile js_whitespace (rev core)"
    by (rule dropWhile_append2) (use assms(2) in auto)
  also have "\<dots> = rev core"
    using assms(3,5) by (cases "rev core") (simp_all add: hd_rev [symmetric])
  finally show ?thesis
    by (simp add: trim_def front)
qed

text \<open>
  Claim C8. The gate resolves to true at once, reading nothing, when \<open>isCI\<close> or
  \<open>autoConfirm\<close> is set or the environment does not require confirmation. Otherwise it
  reads one line and resolves to whether the trimmed line equals the keyword, character
  for character; a line that is white space around a core is compared by its core. One
  line is consumed and no second question is asked.
\<close>

theorem promptConfirmation_gate:
  "(isCI context \<or> autoConfirm context \<or> \<not> requiresConfirmation (config context) \<longrightarrow>
      promptConfirmation context stdin = Some (True, stdin))
   \<and> (\<not> isCI context \<and> \<not> autoConfirm context \<and> requiresConfirmation (config context) \<longrightarrow>
        promptConfirmation context [] = None
      \<and> promptConfirmation context (answer # rest)
          = Some (trim answer = confirmationKeyword (config context), rest)
      \<and> (\<forall>pre core post.
            answer = pre @ core @ post
            \<and> (\<forall>c\<in>set pre. js_whitespace c) \<and> (\<forall>c\<in>set post. js_whitespace c)
            \<and> (core \<noteq> [] \<longrightarrow> \<not> js_whitespace (hd core) \<and> \<not> js_whitespace (last core))
            \<longrightarrow> promptConfirmation context (answer # rest)
                  = Some (core = confirmationKeyword (config context), rest)))"
proof -
  have core: "trim (pre @ core @ post) = core"
    if "\<forall>c\<in>set pre. js_whitespace c" and "\<forall>c\<in>set post. js_whitespace c"
      and "core \<noteq> [] \<longrightarrow> \<not> js_whitespace (hd core) \<and> \<not> js_whitespace (last core)"
    for pre core post
  proof (cases "core = []")
    case True
    with that(1,2) trim_blank [of "pre @ post"] show ?thesis by auto
  next
    case False
    with that show ?thesis by (simp add: trim_core)
  qed
  show ?thesis
    by (auto simp: promptConfirmation_def core)
qed

theorem promptConfirmation_gate_witness:
  "promptConfirmation test_context [''  yes '', ''yes''] = Some (True, [''yes''])
   \<and> promptConfirmation test_context [''YES'', ''yes''] = Some (False, [''yes''])
   \<and> promptConfirmation (test_context\<lparr>autoConfirm := True\<rparr>) [''no''] = Some (True, [''no''])"
proof -
  have manual: "\<not> isCI test_context \<and> \<not> autoConfirm test_context
      \<and> requiresConfirmation (config test_context)"
    by (simp add: test_context_def)
  have auto: "isCI (test_context\<lparr>autoConfirm := True\<rparr>) \<or> autoConfirm (test_context\<lparr>autoConfirm := True\<rparr>)
      \<or> \<not> requiresConfirmation (config (test_context\<lparr>autoConfirm := True\<rparr>))"
    by simp
  have t1: "trim ''  yes '' = ''yes''" and t2: "trim ''YES'' = ''YES''"
    by (simp_all add: trim_def js_whitespace_def)
  from mp [OF promptConfirmation_gate [of test_context "[]" "''  yes ''" "[''yes'']", THEN conjunct2] manual]
    mp [OF promptConfirmation_gate [of test_context "[]" "''YES''" "[''yes'']", THEN conjunct2] manual]
    mp [OF promptConfirmation_gate [of "test_context\<lparr>autoConfirm := True\<rparr>" "[''no'']", THEN conjunct1] auto]
  show ?thesis
    by (simp add: t1 t2 test_context_def)
qed

section \<open>Building the context\<close>

text \<open>
  Claim C10. \<open>buildContext\<close> returns a context exactly when \<^verbatim>\<open>MIGRATION_ENV\<close> is
  \<^verbatim>\<open>local\<close>. An unset or empty value and a value outside the list are rejected by
  \<open>detectEnvironment\<close>; \<^verbatim>\<open>dev\<close> and \<^verbatim>\<open>prod\<close> pass it, have no entry in
  \<open>ENVIRONMENT_CONFIGS\<close>, and \<open>buildContext\<close> throws on reading the missing entry.
\<close>

theorem buildContext_only_local:
  "((\<exists>ctx. buildContext parseInt dotenv penv = Inr ctx) \<longleftrightarrow> penv ''MIGRATION_ENV'' = Some ''local'')
   \<and> (penv ''MIGRATION_ENV'' = None \<or> penv ''MIGRATION_ENV'' = Some [] \<longrightarrow>
         detectEnvironment penv = Inl MigrationEnvNotSet
       \<and> buildContext parseInt dotenv penv = Inl MigrationEnvNotSet)
   \<and> (\<forall>v. penv ''MIGRATION_ENV'' = Some v \<and> v \<noteq> [] \<and> v \<notin> {''local'', ''dev'', ''prod''} \<longrightarrow>
         detectEnvironment penv = Inl (InvalidMigrationEnv v)
       \<and> buildContext parseInt dotenv penv = Inl (InvalidMigrationEnv v))
   \<and> (\<forall>v. penv ''MIGRATION_ENV'' = Some v \<and> v \<in> {''dev'', ''prod''} \<longrightarrow>
         detectEnvironment penv = Inr v
       \<and> ENVIRONMENT_CONFIGS v = None
       \<and> buildContext parseInt dotenv penv
           = Inl (TypeError ''Cannot read properties of undefined (reading description)''))"
proof (intro conjI)
  show "(\<exists>ctx. buildContext parseInt dotenv penv = Inr ctx) \<longleftrightarrow> penv ''MIGRATION_ENV'' = Some ''local''"
    by (auto simp: buildContext_def detectEnvironment_def ENVIRONMENT_CONFIGS_def Let_def
        split: option.splits if_splits sum.splits)
  show "penv ''MIGRATION_ENV'' = None \<or> penv ''MIGRATION_ENV'' = Some [] \<longrightarrow>
         detectEnvironment penv = Inl MigrationEnvNotSet
       \<and> buildContext parseInt dotenv penv = Inl MigrationEnvNotSet"
    by (auto simp: buildContext_def detectEnvironment_def)
  show "\<forall>v. penv ''MIGRATION_ENV'' = Some v \<and> v \<noteq> [] \<and> v \<notin> {''local'', ''dev'', ''prod''} \<longrightarrow>
         detectEnvironment penv = Inl (InvalidMigrationEnv v)
       \<and> buildContext parseInt dotenv penv = Inl (InvalidMigrationEnv v)"
    by (auto simp: buildContext_def detectEnvironment_def)
  show "\<forall>v. penv ''MIGRATION_ENV'' = Some v \<and> v \<in> {''dev'', ''prod''} \<longrightarrow>
         detectEnvironment penv = Inr v
       \<and> ENVIRONMENT_CONFIGS v = None
       \<and> buildContext parseInt dotenv penv
           = Inl (TypeError ''Cannot read properties of undefined (reading description)'')"
    by (auto simp: buildContext_def detectEnvironment_def ENVIRONMENT_CONFIGS_def)
qed

theorem buildContext_only_local_witness:
  "buildContext (\<lambda>s. 5432 :: nat) (\<lambda>f. None) [''MIGRATION_ENV'' \<mapsto> ''prod'']
     = Inl (TypeError ''Cannot read properties of undefined (reading description)'')
   \<and> buildContext (\<lambda>s. 5432 :: nat) (\<lambda>f. None) [''MIGRATION_ENV'' \<mapsto> ''dev'']
     = Inl (TypeError ''Cannot read properties of undefined (reading description)'')
   \<and> (\<exists>ctx. buildContext (\<lambda>s. 5432 :: nat) (\<lambda>f. None) [''MIGRATION_ENV'' \<mapsto> ''local''] = Inr ctx)"
proof -
  note prod = buildContext_only_local [of "\<lambda>s. 5432 :: nat" "\<lambda>f. None" "[''MIGRATION_ENV'' \<mapsto> ''prod'']"]
  note dev = buildContext_only_local [of "\<lambda>s. 5432 :: nat" "\<lambda>f. None" "[''MIGRATION_ENV'' \<mapsto> ''dev'']"]
  note local = buildContext_only_local [of "\<lambda>s. 5432 :: nat" "\<lambda>f. None" "[''MIGRATION_ENV'' \<mapsto> ''local'']"]
  have p: "[''MIGRATION_ENV'' \<mapsto> ''prod''] ''MIGRATION_ENV'' = Some ''prod'' \<and> ''prod'' \<in> {''dev'', ''prod''}"
    by simp
  have d: "[''MIGRATION_ENV'' \<mapsto> ''dev''] ''MIGRATION_ENV'' = Some ''dev'' \<and> ''dev'' \<in> {''dev'', ''prod''}"
    by simp
  have l: "[''MIGRATION_ENV'' \<mapsto> ''local''] ''MIGRATION_ENV'' = Some ''local''"
    by simp
  from mp [OF prod [THEN conjunct2, THEN conjunct2, THEN conjunct2, THEN spec] p]
    mp [OF dev [THEN conjunct2, THEN conjunct2, THEN conjunct2, THEN spec] d]
    iffD2 [OF local [THEN conjunct1] l]
  show ?thesis by simp
qed

section \<open>The release manifest\<close>

lemma heredoc_manifest_json:
  "heredoc VERSION date API_SHA WORKERS_SHA DB_SHA
     = manifest_json (new_manifest VERSION date API_SHA WORKERS_SHA DB_SHA)"
  by (simp add: heredoc_def manifest_json_def new_manifest_def json_member_def)

lemma create_release_succeeded:
  assumes "fst (create_release args sh old) = Inr ()"
  shows "snd (create_release args sh old)
           = Some (heredoc (args ! 0) (date_output sh) (args ! 1) (args ! 2) (args ! 3))"
  using assms
  by (auto simp: create_release_def required_def Let_def
      split: if_splits redirection.splits)

text \<open>
  Claim C3. When \<open>create_release\<close> succeeds, the file holds the text of a manifest whose two
  environment records are empty. \<open>recordProductionDeploy\<close> on a manifest whose staging
  \<^verbatim>\<open>deployed_at\<close> is empty fails with \<open>StagingNotDoneError\<close>; when it succeeds, the staging
  \<^verbatim>\<open>deployed_at\<close> was set before and is unchanged, so production metadata is only ever
  written after staging metadata, and each operation keeps the staging-first invariant.
\<close>

theorem staging_before_production:
  "(fst (create_release args sh old) = Inr () \<longrightarrow>
      snd (create_release args sh old) =
        Some (manifest_json
                (new_manifest (args ! 0) (date_output sh) (args ! 1) (args ! 2) (args ! 3)))
      \<and> environments (new_manifest (args ! 0) (date_output sh) (args ! 1) (args ! 2) (args ! 3)) =
        \<lparr>staging = \<lparr>staging_deployed_at = [], staging_deployed_by = []\<rparr>,
         production = \<lparr>production_deployed_at = [], production_deployed_by = [],
                        production_approved_by = []\<rparr>\<rparr>)
   \<and> (file = Some m \<and> manifest_version m = v
        \<and> staging_deployed_at (staging (environments m)) = [] \<longrightarrow>
        recordProductionDeploy v actor approver timestamp file = Inl StagingNotDoneError)
   \<and> (\<forall>file'. recordProductionDeploy v actor approver timestamp file = Inr file' \<longrightarrow>
        (\<exists>m0. file = Some m0 \<and> staging_deployed_at (staging (environments m0)) \<noteq> []
           \<and> file' = Some (m0\<lparr>environments := (environments m0)
                 \<lparr>production := \<lparr>production_deployed_at = timestamp,
                                 production_deployed_by = actor,
                                 production_approved_by = approver\<rparr>\<rparr>\<rparr>))
        \<and> staging_first file')
   \<and> (fst (create_release args sh old) = Inr () \<longrightarrow>
        staging_first
          (Some (new_manifest (args ! 0) (date_output sh) (args ! 1) (args ! 2) (args ! 3))))
   \<and> (\<forall>file'. staging_first file \<and> timestamp \<noteq> []
          \<and> recordStagingDeploy v actor timestamp file = Inr file' \<longrightarrow> staging_first file')"
proof (intro conjI)
  show "fst (create_release args sh old) = Inr () \<longrightarrow>
      snd (create_release args sh old) =
        Some (manifest_json
                (new_manifest (args ! 0) (date_output sh) (args ! 1) (args ! 2) (args ! 3)))
      \<and> environments (new_manifest (args ! 0) (date_output sh) (args ! 1) (args ! 2) (args ! 3)) =
        \<lparr>staging = \<lparr>staging_deployed_at = [], staging_deployed_by = []\<rparr>,
         production = \<lparr>production_deployed_at = [], production_deployed_by = [],
                        production_approved_by = []\<rparr>\<rparr>"
    by (simp add: create_release_succeeded heredoc_manifest_json) (simp add: new_manifest_def)
  show "file = Some m \<and> manifest_version m = v
        \<and> staging_deployed_at (staging (environments m)) = [] \<longrightarrow>
        recordProductionDeploy v actor approver timestamp file = Inl StagingNotDoneError"
    by (simp add: recordProductionDeploy_def)
  show "\<forall>file'. recordProductionDeploy v actor approver timestamp file = Inr file' \<longrightarrow>
        (\<exists>m0. file = Some m0 \<and> staging_deployed_at (staging (environments m0)) \<noteq> []
           \<and> file' = Some (m0\<lparr>environments := (environments m0)
                 \<lparr>production := \<lparr>production_deployed_at = timestamp,
                                 production_deployed_by = actor,
                                 production_approved_by = approver\<rparr>\<rparr>\<rparr>))
        \<and> staging_first file'"
    by (auto simp: recordProductionDeploy_def staging_first_def split: option.splits if_splits)
  show "fst (create_release args sh old) = Inr () \<longrightarrow>
        staging_first
          (Some (new_manifest (args ! 0) (date_output sh) (args ! 1) (args ! 2) (args ! 3)))"
    by (simp add: staging_first_def new_manifest_def)
  show "\<forall>file'. staging_first file \<and> timestamp \<noteq> []
          \<and> recordStagingDeploy v actor timestamp file = Inr file' \<longrightarrow> staging_first file'"
    by (auto simp: recordStagingDeploy_def staging_first_def split: option.splits if_splits)
qed

theorem staging_before_production_witness:
  "create_release [''0.2.0'', ''abc1234'', ''def5678'', ''ghi9012'']
       \<lparr>date_output = ''2026-02-23T12:00:00Z'', redirect = Written, stdout_ok = True\<rparr> None
     = (Inr (), Some (manifest_json (test_manifest\<lparr>manifest_description := [], environments :=
         \<lparr>staging = \<lparr>staging_deployed_at = [], staging_deployed_by = []\<rparr>,
          production = \<lparr>production_deployed_at = [], production_deployed_by = [],
                         production_approved_by = []\<rparr>\<rparr>\<rparr>)))
   \<and> recordProductionDeploy ''0.2.0'' ''engineer'' ''reviewer'' ''2026-02-23T14:00:00Z''
        (Some (test_manifest\<lparr>manifest_description := [], environments :=
         \<lparr>staging = \<lparr>staging_deployed_at = [], staging_deployed_by = []\<rparr>,
          production = \<lparr>production_deployed_at = [], production_deployed_by = [],
                         production_approved_by = []\<rparr>\<rparr>\<rparr>))
     = Inl StagingNotDoneError"
proof -
  let ?fresh = "test_manifest\<lparr>manifest_description := [], environments :=
         \<lparr>staging = \<lparr>staging_deployed_at = [], staging_deployed_by = []\<rparr>,
          production = \<lparr>production_deployed_at = [], production_deployed_by = [],
                         production_approved_by = []\<rparr>\<rparr>\<rparr>"
  let ?args = "[''0.2.0'', ''abc1234'', ''def5678'', ''ghi9012'']"
  let ?sh = "\<lparr>date_output = ''2026-02-23T12:00:00Z'', redirect = Written, stdout_ok = True\<rparr>"
  have ok: "fst (create_release ?args ?sh None) = Inr ()"
    by (simp add: create_release_def required_def)
  have fresh: "new_manifest (?args ! 0) (date_output ?sh) (?args ! 1) (?args ! 2) (?args ! 3)
      = ?fresh"
    by (simp add: new_manifest_def test_manifest_def)
  have unset: "Some ?fresh = Some ?fresh \<and> manifest_version ?fresh = ''0.2.0''
      \<and> staging_deployed_at (staging (environments ?fresh)) = []"
    by (simp add: test_manifest_def)
  from mp [OF staging_before_production [THEN conjunct1] ok, THEN conjunct1] fresh
  have written: "snd (create_release ?args ?sh None) = Some (manifest_json ?fresh)"
    by simp
  from ok written have "create_release ?args ?sh None = (Inr (), Some (manifest_json ?fresh))"
    by (simp add: prod_eq_iff)
  with mp [OF staging_before_production [THEN conjunct2, THEN conjunct1] unset]
  show ?thesis by simp
qed

text \<open>
  Claim C6 as stated fails: run on a manifest file that already holds version 0.2.0, with
  staging recorded, the script succeeds and the file then holds a new manifest of version
  0.2.0 with another API SHA and empty environment metadata.
\<close>

theorem create_release_existing_version_counterexample:
  "manifest_version test_manifest = ''0.2.0''
   \<and> create_release [''0.2.0'', ''fff0000'', ''def5678'', ''ghi9012'']
        \<lparr>date_output = ''2026-03-01T09:00:00Z'', redirect = Written, stdout_ok = True\<rparr>
        (Some (manifest_json test_manifest))
     = (Inr (), Some (manifest_json
          (new_manifest ''0.2.0'' ''2026-03-01T09:00:00Z'' ''fff0000'' ''def5678'' ''ghi9012'')))
   \<and> manifest_json
        (new_manifest ''0.2.0'' ''2026-03-01T09:00:00Z'' ''fff0000'' ''def5678'' ''ghi9012'')
     \<noteq> manifest_json test_manifest"
proof (intro conjI)
  show "manifest_version test_manifest = ''0.2.0''"
    by (simp add: test_manifest_def)
  show "create_release [''0.2.0'', ''fff0000'', ''def5678'', ''ghi9012'']
        \<lparr>date_output = ''2026-03-01T09:00:00Z'', redirect = Written, stdout_ok = True\<rparr>
        (Some (manifest_json test_manifest))
     = (Inr (), Some (manifest_json
          (new_manifest ''0.2.0'' ''2026-03-01T09:00:00Z'' ''fff0000'' ''def5678'' ''ghi9012'')))"
    by (simp add: create_release_def required_def heredoc_manifest_json)
  show "manifest_json
        (new_manifest ''0.2.0'' ''2026-03-01T09:00:00Z'' ''fff0000'' ''def5678'' ''ghi9012'')
     \<noteq> manifest_json test_manifest"
    by (simp add: manifest_json_def new_manifest_def test_manifest_def unlines_def
        json_member_def quoted_def)
qed

text \<open>
  Claim C6, amended. Creating a manifest for a version that already exists does not fail
  on that account: the script never reads \<^verbatim>\<open>releases/manifest.json\<close>, so whether it succeeds
  is the same whatever the file holds, and when it succeeds the file holds the document
  generated from the arguments, whatever it held before.
\<close>

theorem create_release_replaces:
  "fst (create_release args sh file) = fst (create_release args sh file')
   \<and> (fst (create_release args sh file) = Inr () \<longrightarrow>
        snd (create_release args sh file)
          = Some (heredoc (args ! 0) (date_output sh) (args ! 1) (args ! 2) (args ! 3)))"
proof (intro conjI)
  show "fst (create_release args sh file) = fst (create_release args sh file')"
    by (simp add: create_release_def Let_def split: sum.splits redirection.splits)
  show "fst (create_release args sh file) = Inr () \<longrightarrow>
        snd (create_release args sh file)
          = Some (heredoc (args ! 0) (date_output sh) (args ! 1) (args ! 2) (args ! 3))"
    by (simp add: create_release_succeeded)
qed

theorem create_release_replaces_witness:
  "fst (create_release [''0.2.0'', ''fff0000'', ''def5678'', ''ghi9012'']
          \<lparr>date_output = ''2026-03-01T09:00:00Z'', redirect = Written, stdout_ok = True\<rparr>
          (Some (manifest_json test_manifest))) = Inr ()
   \<and> snd (create_release [''0.2.0'', ''fff0000'', ''def5678'', ''ghi9012'']
          \<lparr>date_output = ''2026-03-01T09:00:00Z'', redirect = Written, stdout_ok = True\<rparr>
          (Some (manifest_json test_manifest)))
     = Some (heredoc ''0.2.0'' ''2026-03-01T09:00:00Z'' ''fff0000'' ''def5678'' ''ghi9012'')"
proof -
  let ?args = "[''0.2.0'', ''fff0000'', ''def5678'', ''ghi9012'']"
  let ?sh = "\<lparr>date_output = ''2026-03-01T09:00:00Z'', redirect = Written, stdout_ok = True\<rparr>"
  have ok: "fst (create_release ?args ?sh (Some (manifest_json test_manifest))) = Inr ()"
    by (simp add: create_release_def required_def)
  from ok mp [OF create_release_replaces [THEN conjunct2] ok]
  show ?thesis by simp
qed

section \<open>Status\<close>

lemma status_open:
  assumes "pool w"
  shows "fst (status E cat w) =
           Inr (sort_key row_version (case schema_migrations (db w) of None \<Rightarrow> [] | Some rows \<Rightarrow> rows),
                filter (\<lambda>m. version m \<notin> row_version `
                          set (case schema_migrations (db w) of None \<Rightarrow> [] | Some rows \<Rightarrow> rows)) cat)"
proof -
  let ?rows = "case schema_migrations (db w) of None \<Rightarrow> [] | Some rows \<Rightarrow> rows"
  let ?w1 = "snd (healthCheck E w)"
  let ?w2 = "snd (createMigrationsTable E ?w1)"
  let ?select = "query E ''SELECT version, description, applied_at, environment FROM schema_migrations ORDER BY version'' sql_select_all"
  have h: "fst (healthCheck E w) = Inr True"
    using assms by (simp add: healthCheck_eq)
  have c: "fst (createMigrationsTable E ?w1) = Inr ()"
    using assms by (simp add: fst_createMigrationsTable snd_healthCheck)
  have w2: "pool ?w2" "schema_migrations (db ?w2) = Some ?rows"
    using assms by (simp_all add: snd_createMigrationsTable snd_healthCheck split: option.splits)
  have s: "fst (?select ?w2) = Inr (sort_key row_version ?rows)"
    using w2 by (simp add: fst_query sql_select_all_def)
  show ?thesis
    unfolding status_def andThen_Inr [where f = "healthCheck E", OF h]
    by (simp add: andThen_Inr [where f = "createMigrationsTable E", OF c]
        andThen_Inr [where f = ?select, OF s] Let_def split: prod.splits sum.splits)
qed

lemma status_closed: "\<not> pool w \<Longrightarrow> fst (status E cat w) = Inl DatabaseUnhealthy"
  by (simp add: status_def andThen_def healthCheck_eq)

lemma pending_sets:
  "A \<inter> f ` {m \<in> C. f m \<notin> A} = {}"
  "f ` C \<subseteq> A \<union> f ` {m \<in> C. f m \<notin> A}"
  "f ` {m \<in> C. f m \<notin> A} \<subseteq> f ` C"
  by auto

text \<open>
  Claim C7 as stated fails: with a tracking row for version 000 and the catalog of the one
  unit 001, \<open>status\<close> lists the row as applied and the unit as pending, and the versions
  of the two lists together are not the versions of the catalog.
\<close>

theorem status_partition_counterexample:
  "fst (status test_externals (MIGRATIONS ''db'')
          (connect \<lparr>objects = [], schema_migrations = Some [test_row ''000'' ''x'']\<rparr> 0))
     = Inr ([test_row ''000'' ''x''], MIGRATIONS ''db'')
   \<and> row_version ` set [test_row ''000'' ''x''] \<union> version ` set (MIGRATIONS ''db'')
       \<noteq> version ` set (MIGRATIONS ''db'')"
  by (simp add: status_open connect_def MIGRATIONS_def test_row_def)

text \<open>
  Claim C7, amended. \<open>status\<close> reports every row of the tracking table as applied and, as
  pending, exactly the units of the catalog whose version has no row. By version the two
  lists are disjoint and cover the catalog; their union is the catalog when every row's
  version is in the catalog, and only then.
\<close>

theorem status_partition:
  assumes "fst (status E cat w) = Inr (applied, pending)"
  shows "row_version ` set applied \<inter> version ` set pending = {}
       \<and> version ` set cat \<subseteq> row_version ` set applied \<union> version ` set pending
       \<and> pending = filter (\<lambda>m. version m \<notin> row_version ` set applied) cat
       \<and> set applied = (case schema_migrations (db w) of None \<Rightarrow> {} | Some rows \<Rightarrow> set rows)
       \<and> (row_version ` set applied \<union> version ` set pending = version ` set cat
            \<longleftrightarrow> row_version ` set applied \<subseteq> version ` set cat)"
proof -
  have "pool w"
    using assms status_closed [of w E cat] by (cases "pool w") auto
  from status_open [OF this, of E cat] assms
  have applied: "applied = sort_key row_version
        (case schema_migrations (db w) of None \<Rightarrow> [] | Some rows \<Rightarrow> rows)"
    and pending: "pending = filter (\<lambda>m. version m \<notin> row_version ` set applied) cat"
    by simp_all
  have rows: "set applied = (case schema_migrations (db w) of None \<Rightarrow> {} | Some rows \<Rightarrow> set rows)"
    by (simp add: applied split: option.splits)
  have sp: "set pending = {m \<in> set cat. version m \<notin> row_version ` set applied}"
    by (subst pending) simp
  have disjoint: "row_version ` set applied \<inter> version ` set pending = {}"
    unfolding sp by (rule pending_sets)
  have cover: "version ` set cat \<subseteq> row_version ` set applied \<union> version ` set pending"
    unfolding sp by (rule pending_sets)
  have within: "version ` set pending \<subseteq> version ` set cat"
    unfolding sp by (rule pending_sets)
  have exact: "row_version ` set applied \<union> version ` set pending = version ` set cat
            \<longleftrightarrow> row_version ` set applied \<subseteq> version ` set cat"
    using cover within by blast
  from disjoint cover pending rows exact show ?thesis by blast
qed

theorem status_partition_witness:
  "fst (status test_externals (MIGRATIONS ''db'' @ [broken_unit])
          (connect \<lparr>objects = [], schema_migrations = Some [test_row ''001'' ''x'']\<rparr> 0))
     = Inr ([test_row ''001'' ''x''], [broken_unit])
   \<and> row_version ` set [test_row ''001'' ''x''] \<inter> version ` set [broken_unit] = {}
   \<and> version ` set (MIGRATIONS ''db'' @ [broken_unit])
       \<subseteq> row_version ` set [test_row ''001'' ''x''] \<union> version ` set [broken_unit]"
proof -
  have run: "fst (status test_externals (MIGRATIONS ''db'' @ [broken_unit])
          (connect \<lparr>objects = [], schema_migrations = Some [test_row ''001'' ''x'']\<rparr> 0))
     = Inr ([test_row ''001'' ''x''], [broken_unit])"
    by (simp add: status_open connect_def MIGRATIONS_def test_row_def broken_unit_def)
  note part = status_partition [OF run]
  from run part [THEN conjunct1] part [THEN conjunct2, THEN conjunct1]
  show ?thesis by (intro conjI)
qed

section \<open>Audit logging\<close>

lemma session_logAuditEvent: "session (snd (logAuditEvent E t d w)) = session w"
  by (simp add: session_def snd_logAuditEvent)

lemma session_eq_iff:
  "session w = session w' \<longleftrightarrow> pool w = pool w' \<and> db w = db w' \<and> saved w = saved w'"
  by (simp add: session_def)

lemma getConnection_session:
  assumes "session w = session w'"
  shows "fst (getConnection E w) = fst (getConnection E' w')"
    and "session (snd (getConnection E w)) = session (snd (getConnection E' w'))"
  using assms by (simp_all add: session_eq_iff fst_getConnection snd_getConnection)

lemma query_session:
  assumes "session w = session w'"
  shows "fst (query E text run w) = fst (query E' text run w')"
    and "session (snd (query E text run w)) = session (snd (query E' text run w'))"
  using assms by (auto simp: session_eq_iff fst_query snd_query split: sum.splits)

lemma transaction_session:
  assumes same: "session w = session w'"
    and cb: "\<forall>c c'. session c = session c' \<longrightarrow>
               fst (cb c) = fst (cb' c') \<and> session (snd (cb c)) = session (snd (cb' c'))"
  shows "fst (transaction E cb w) = fst (transaction E' cb' w')
       \<and> session (snd (transaction E cb w)) = session (snd (transaction E' cb' w'))"
proof (cases "pool w")
  case False
  then have "\<not> pool w'" using same by (simp add: session_eq_iff)
  with False same show ?thesis
    by (simp add: fst_transaction snd_transaction_closed)
next
  case True
  then have p': "pool w'" using same by (simp add: session_eq_iff)
  let ?c = "snd (logAuditEvent E ''data_access'' ''Transaction started''
                  (client_begin (snd (getConnection E w))))"
  let ?d = "snd (logAuditEvent E' ''data_access'' ''Transaction started''
                  (client_begin (snd (getConnection E' w'))))"
  have start: "session ?c = session ?d"
    using same by (simp add: session_eq_iff snd_logAuditEvent client_begin_def snd_getConnection)
  obtain r1 c1 where r1: "cb ?c = (r1, c1)" by (cases "cb ?c")
  obtain r2 c2 where r2: "cb' ?d = (r2, c2)" by (cases "cb' ?d")
  from cb [rule_format, OF start] have res: "r1 = r2" and after: "session c1 = session c2"
    by (simp_all add: r1 r2)
  show ?thesis
    unfolding transaction_eq [where cb = cb, OF True r1] transaction_eq [where cb = cb', OF p' r2]
    using after
    by (cases r2) (simp_all add: res session_eq_iff client_rollback_def client_commit_def
        snd_logAuditEvent split: option.splits)
qed

text \<open>
  Claim C9. \<open>logAuditEvent\<close> returns normally whatever the two audit statements do, and
  leaves pool, database and transaction as they were. So the outcome of
  \<open>getConnection\<close>, \<open>query\<close> and \<open>transaction\<close>, the value or the error and the state
  the caller goes on with, is the same under any two behaviours \<open>E\<close>, \<open>E'\<close> of the audit
  storage, failing or not.
\<close>

theorem audit_failures_not_propagated:
  "fst (logAuditEvent E t d w) = Inr ()
   \<and> session (snd (logAuditEvent E t d w)) = session w
   \<and> (session w = session w' \<longrightarrow>
        fst (getConnection E w) = fst (getConnection E' w')
      \<and> session (snd (getConnection E w)) = session (snd (getConnection E' w'))
      \<and> fst (query E q run w) = fst (query E' q run w')
      \<and> session (snd (query E q run w)) = session (snd (query E' q run w'))
      \<and> ((\<forall>c c'. session c = session c' \<longrightarrow>
              fst (cb c) = fst (cb' c') \<and> session (snd (cb c)) = session (snd (cb' c')))
          \<longrightarrow> fst (transaction E cb w) = fst (transaction E' cb' w')
            \<and> session (snd (transaction E cb w)) = session (snd (transaction E' cb' w'))))"
proof (intro conjI impI)
  show "fst (logAuditEvent E t d w) = Inr ()"
    by (rule fst_logAuditEvent)
  show "session (snd (logAuditEvent E t d w)) = session w"
    by (rule session_logAuditEvent)
next
  assume same: "session w = session w'"
  show "fst (getConnection E w) = fst (getConnection E' w')"
    using same by (rule getConnection_session)
  show "session (snd (getConnection E w)) = session (snd (getConnection E' w'))"
    using same by (rule getConnection_session)
  show "fst (query E q run w) = fst (query E' q run w')"
    using same by (rule query_session)
  show "session (snd (query E q run w)) = session (snd (query E' q run w'))"
    using same by (rule query_session)
  assume cb: "\<forall>c c'. session c = session c' \<longrightarrow>
              fst (cb c) = fst (cb' c') \<and> session (snd (cb c)) = session (snd (cb' c'))"
  show "fst (transaction E cb w) = fst (transaction E' cb' w')"
    using transaction_session [OF same cb] by (rule conjunct1)
  show "session (snd (transaction E cb w)) = session (snd (transaction E' cb' w'))"
    using transaction_session [OF same cb] by (rule conjunct2)
qed

theorem audit_failures_not_propagated_witness:
  "audit_insert failing_audit ''data_access'' ''Connection acquired'' 0
     = Inl (ServerError ''audit_events: permission denied'')
   \<and> fst (logAuditEvent failing_audit ''data_access'' ''Connection acquired''
          (connect \<lparr>objects = [], schema_migrations = Some [test_row ''001'' ''x'']\<rparr> 0)) = Inr ()
   \<and> fst (query failing_audit ''SELECT checksum, environment FROM schema_migrations WHERE version = $1''
          (sql_select_version ''001'')
          (connect \<lparr>objects = [], schema_migrations = Some [test_row ''001'' ''x'']\<rparr> 0))
     = Inr [(''x'', ''local'')]
   \<and> session (snd (transaction failing_audit
          (client_exec failing_audit ''CREATE TABLE users (id bigserial)'')
          (connect \<lparr>objects = [], schema_migrations = Some [test_row ''001'' ''x'']\<rparr> 0)))
     = (True, \<lparr>objects = [''CREATE TABLE users (id bigserial)''],
               schema_migrations = Some [test_row ''001'' ''x'']\<rparr>, None)"
proof -
  let ?w = "connect \<lparr>objects = ([] :: string list),
                     schema_migrations = Some [test_row ''001'' ''x'']\<rparr> (0 :: nat)"
  let ?q = "''SELECT checksum, environment FROM schema_migrations WHERE version = $1''"
  let ?cb = "client_exec failing_audit ''CREATE TABLE users (id bigserial)''
               :: (unit, (string list, nat) pg) action"
  note all = audit_failures_not_propagated [of failing_audit "''data_access''"
      "''Connection acquired''" ?w ?w test_externals ?q "sql_select_version ''001''" ?cb ?cb]
  have fails: "audit_insert failing_audit ''data_access'' ''Connection acquired'' 0
     = Inl (ServerError ''audit_events: permission denied'')"
    by (simp add: failing_audit_def)
  have same: "session ?w = session ?w" by simp
  have cb: "\<forall>c c'. session c = session c' \<longrightarrow>
      fst (?cb c) = fst (?cb c') \<and> session (snd (?cb c)) = session (snd (?cb c'))"
    by (auto simp: session_eq_iff client_exec_def split: prod.splits option.splits)
  note rest = mp [OF all [THEN conjunct2, THEN conjunct2] same]
  note q = rest [THEN conjunct2, THEN conjunct2, THEN conjunct1]
  note tx = mp [OF rest [THEN conjunct2, THEN conjunct2, THEN conjunct2, THEN conjunct2] cb,
      THEN conjunct2]
  have q': "fst (query test_externals ?q (sql_select_version ''001'') ?w) = Inr [(''x'', ''local'')]"
    by (simp add: run_defs test_externals_def test_row_def)
  have tx': "session (snd (transaction test_externals ?cb ?w))
     = (True, \<lparr>objects = [''CREATE TABLE users (id bigserial)''],
               schema_migrations = Some [test_row ''001'' ''x'']\<rparr>, None)"
    by (simp add: run_defs session_def failing_audit_def test_externals_def test_row_def)
  from fails all [THEN conjunct1] q tx show ?thesis
    by (simp add: q' tx')
qed

section \<open>Running migrate twice\<close>

lemma applyMigration_success:
  assumes "pool w" and "schema_migrations (db w) = Some rows"
    and "fst (applyMigration E env m w) = Inr ()"
  shows "\<exists>c. readFileSync E (path m) = Some c \<and> pool (snd (applyMigration E env m w)) \<and>
           (case find (\<lambda>r. row_version r = version m) rows of
              Some r \<Rightarrow> row_checksum r = sha256 E c \<and> db (snd (applyMigration E env m w)) = db w
            | None \<Rightarrow>
                (\<exists>p. sql_insert_migration (now E) (version m) (description m) (sha256 E c) env
                        (fst (snd (exec_sql E c (db w, Some (db w))))) = Inr p
                    \<and> db (snd (applyMigration E env m w)) = snd p))"
proof (cases "readFileSync E (path m)")
  case None
  with assms(3) show ?thesis by (simp add: applyMigration_no_file)
next
  case (Some c)
  show ?thesis
  proof (cases "find (\<lambda>r. row_version r = version m) rows")
    case found: (Some r)
    from applyMigration_present [OF assms(1,2) Some found, of env] assms(3) assms(1)
    show ?thesis
      by (auto simp: Some found snd_isMigrationApplied split: if_splits)
  next
    case None
    obtain err d' s' where x: "exec_sql E c (db w, Some (db w)) = (err, d', s')"
      by (cases "exec_sql E c (db w, Some (db w))")
    note ap = applyMigration_pending [OF assms(1,2) Some None x, of env]
    from ap(1) assms(3) obtain p where
      p: "sql_insert_migration (now E) (version m) (description m) (sha256 E c) env d' = Inr p"
      and e: "err = None"
      by (auto split: sum.splits option.splits)
    with ap(2,3) x show ?thesis
      by (cases p) (simp add: Some None)
  qed
qed

lemma insert_recorded:
  assumes "sql_insert_migration t v descr c env d = Inr p"
  shows "\<exists>rows v' c' env'. schema_migrations d = Some rows
           \<and> store_varchar 50 v = Some v' \<and> store_varchar 64 c = Some c'
           \<and> store_varchar 20 env = Some env' \<and> v' \<notin> row_version ` set rows
           \<and> schema_migrations (snd p) =
               Some (rows @ [\<lparr>row_version = v', row_description = descr, row_applied_at = t,
                               row_checksum = c', row_environment = env'\<rparr>])"
  using assms
  by (auto simp: sql_insert_migration_def split: option.splits if_splits)

lemma store_varchar_fits: "length s \<le> n \<Longrightarrow> store_varchar n s = Some s"
  by (simp add: store_varchar_def)

lemma migrate_loop_Cons_open:
  assumes "pool w" and "schema_migrations (db w) = Some rows"
  shows "migrate_loop E env (m # rest) n w =
           andThen (applyMigration E env m) (\<lambda>u. migrate_loop E env rest
               (if find (\<lambda>r. row_version r = version m) rows = None then n + 1 else n))
             (snd (isMigrationApplied E (version m) w))"
proof -
  have "fst (isMigrationApplied E (version m) w) =
      Inr (map_option (\<lambda>r. (row_checksum r, row_environment r))
             (find (\<lambda>r. row_version r = version m) rows))"
    using assms by (simp add: fst_isMigrationApplied)
  then show ?thesis
    by (simp add: migrate_loop_Cons andThen_Inr)
qed

lemma find_append_rows:
  "find P (xs @ ys) = (case find P xs of None \<Rightarrow> find P ys | Some x \<Rightarrow> Some x)"
  by (induction xs) auto

lemma find_Some_row: "find P xs = Some x \<Longrightarrow> x \<in> set xs \<and> P x"
  by (induction xs) (auto split: if_splits)

lemma andThen_succeeded:
  assumes "andThen f g w = (Inr k, w')"
  shows "\<exists>r. fst (f w) = Inr r \<and> g r (snd (f w)) = (Inr k, w')"
  using assms by (cases "f w") (auto simp: andThen_def split: sum.splits)

lemma migrate_loop_apply_pending:
  assumes "pool w" and "schema_migrations (db w) = Some rows"
    and "migrate_loop E env cat n w = (Inr k, w')"
  shows "db w' = apply_pending E env cat (db w)"
  using assms
proof (induction cat arbitrary: n w rows)
  case Nil
  then show ?case by (simp add: migrate_loop_Nil)
next
  case (Cons m rest)
  let ?P = "\<lambda>r. row_version r = version m"
  let ?w1 = "snd (isMigrationApplied E (version m) w)"
  let ?w2 = "snd (applyMigration E env m ?w1)"
  let ?n = "if find ?P rows = None then n + 1 else n"
  have w1: "pool ?w1" "schema_migrations (db ?w1) = Some rows" "db ?w1 = db w"
    using Cons.prems(1,2) by (simp_all add: snd_isMigrationApplied)
  from Cons.prems(3) have "andThen (applyMigration E env m)
      (\<lambda>u. migrate_loop E env rest ?n) ?w1 = (Inr k, w')"
    by (simp add: migrate_loop_Cons_open [OF Cons.prems(1,2)])
  from andThen_succeeded [OF this]
  have ok: "fst (applyMigration E env m ?w1) = Inr ()"
    and rest: "migrate_loop E env rest ?n ?w2 = (Inr k, w')"
    by auto
  from applyMigration_success [OF w1(1,2) ok] obtain c where
    src: "readFileSync E (path m) = Some c" and w2: "pool ?w2"
    and step: "case find ?P rows of
              Some r \<Rightarrow> row_checksum r = sha256 E c \<and> db ?w2 = db ?w1
            | None \<Rightarrow>
                (\<exists>p. sql_insert_migration (now E) (version m) (description m) (sha256 E c) env
                        (fst (snd (exec_sql E c (db ?w1, Some (db ?w1))))) = Inr p
                    \<and> db ?w2 = snd p)"
    by blast
  show ?case
  proof (cases "find ?P rows")
    case (Some r)
    with step w1 have same: "db ?w2 = db w" by simp
    then have tbl: "schema_migrations (db ?w2) = Some rows"
      using Cons.prems(2) by simp
    from find_Some_row [OF Some] have "version m \<in> set (map row_version rows)"
      by force
    with Cons.IH [OF w2 tbl rest] src same Cons.prems(2) show ?thesis
      by simp
  next
    case None
    with step w1 obtain p where
      p: "sql_insert_migration (now E) (version m) (description m) (sha256 E c) env
            (fst (snd (exec_sql E c (db w, Some (db w))))) = Inr p"
      and d: "db ?w2 = snd p"
      by auto
    from insert_recorded [OF p] d obtain rows2 where tbl: "schema_migrations (db ?w2) = Some rows2"
      by auto
    from None have "version m \<notin> set (map row_version rows)"
      by (auto simp: find_None_iff)
    with Cons.IH [OF w2 tbl rest] src p d Cons.prems(2) show ?thesis
      by (cases p) simp
  qed
qed

lemma migrate_loop_success:
  assumes "pool w" and "schema_migrations (db w) = Some rows"
    and "migrate_loop E env cat n w = (Inr k, w')"
    and "\<forall>m\<in>set cat. length (version m) \<le> 50"
    and "\<forall>m\<in>set cat. \<forall>c. readFileSync E (path m) = Some c \<longrightarrow> length (sha256 E c) \<le> 64"
    and "\<forall>m\<in>set cat. \<forall>c st. readFileSync E (path m) = Some c \<longrightarrow>
           schema_migrations (fst (snd (exec_sql E c st))) = schema_migrations (fst st)"
  shows "pool w' \<and> (\<exists>new. schema_migrations (db w') = Some (rows @ new)
           \<and> distinct (map row_version new)
           \<and> set (map row_version new) = version ` set cat - row_version ` set rows
           \<and> k = n + length new
           \<and> (\<forall>m\<in>set cat. \<exists>c r. readFileSync E (path m) = Some c
                 \<and> find (\<lambda>r. row_version r = version m) (rows @ new) = Some r
                 \<and> row_checksum r = sha256 E c))"
  using assms
proof (induction cat arbitrary: n w rows)
  case Nil
  then show ?case by (simp add: migrate_loop_Nil)
next
  case (Cons m rest)
  let ?P = "\<lambda>r. row_version r = version m"
  let ?w1 = "snd (isMigrationApplied E (version m) w)"
  let ?w2 = "snd (applyMigration E env m ?w1)"
  let ?n = "if find ?P rows = None then n + 1 else n"
  have w1: "pool ?w1" "schema_migrations (db ?w1) = Some rows" "db ?w1 = db w"
    using Cons.prems(1,2) by (simp_all add: snd_isMigrationApplied)
  from Cons.prems(3) have "andThen (applyMigration E env m)
      (\<lambda>u. migrate_loop E env rest ?n) ?w1 = (Inr k, w')"
    by (simp add: migrate_loop_Cons_open [OF Cons.prems(1,2)])
  from andThen_succeeded [OF this]
  have ok: "fst (applyMigration E env m ?w1) = Inr ()"
    and rest: "migrate_loop E env rest ?n ?w2 = (Inr k, w')"
    by auto
  have fits: "\<forall>m\<in>set rest. length (version m) \<le> 50"
    and digests: "\<forall>m\<in>set rest. \<forall>c. readFileSync E (path m) = Some c \<longrightarrow>
           length (sha256 E c) \<le> 64"
    and tracking: "\<forall>m\<in>set rest. \<forall>c st. readFileSync E (path m) = Some c \<longrightarrow>
           schema_migrations (fst (snd (exec_sql E c st))) = schema_migrations (fst st)"
    using Cons.prems(4,5,6) by simp_all
  from applyMigration_success [OF w1(1,2) ok] obtain c where
    src: "readFileSync E (path m) = Some c" and w2: "pool ?w2"
    and step: "case find ?P rows of
              Some r \<Rightarrow> row_checksum r = sha256 E c \<and> db ?w2 = db ?w1
            | None \<Rightarrow>
                (\<exists>p. sql_insert_migration (now E) (version m) (description m) (sha256 E c) env
                        (fst (snd (exec_sql E c (db ?w1, Some (db ?w1))))) = Inr p
                    \<and> db ?w2 = snd p)"
    by blast
  show ?case
  proof (cases "find ?P rows")
    case (Some r)
    with step have sum: "row_checksum r = sha256 E c" and tbl: "schema_migrations (db ?w2) = Some rows"
      using w1 by simp_all
    from Some have n: "?n = n" by simp
    from Cons.IH [OF w2 tbl rest [unfolded n] fits digests tracking] obtain new where
      p: "pool w'" and t: "schema_migrations (db w') = Some (rows @ new)"
      and d: "distinct (map row_version new)"
      and s: "set (map row_version new) = version ` set rest - row_version ` set rows"
      and k: "k = n + length new"
      and rec: "\<forall>m\<in>set rest. \<exists>c r. readFileSync E (path m) = Some c
                 \<and> find (\<lambda>r. row_version r = version m) (rows @ new) = Some r
                 \<and> row_checksum r = sha256 E c"
      by blast
    from find_Some_row [OF Some] have "version m \<in> row_version ` set rows"
      by force
    with s have s': "set (map row_version new) = version ` set (m # rest) - row_version ` set rows"
      by auto
    have "find ?P (rows @ new) = Some r"
      using Some by (simp add: find_append_rows)
    with src sum rec have rec': "\<forall>m\<in>set (m # rest). \<exists>c r. readFileSync E (path m) = Some c
                 \<and> find (\<lambda>r. row_version r = version m) (rows @ new) = Some r
                 \<and> row_checksum r = sha256 E c"
      by simp
    from p t d s' k rec' show ?thesis by blast
  next
    case None
    let ?d' = "fst (snd (exec_sql E c (db w, Some (db w))))"
    from None step w1 obtain p where
      p: "sql_insert_migration (now E) (version m) (description m) (sha256 E c) env ?d' = Inr p"
      and d2: "db ?w2 = snd p"
      by auto
    have "schema_migrations ?d' = schema_migrations (fst (db w, Some (db w)))"
      using Cons.prems(6) src by simp
    then have d': "schema_migrations ?d' = Some rows"
      using Cons.prems(2) by simp
    have v: "store_varchar 50 (version m) = Some (version m)"
      using Cons.prems(4) by (simp add: store_varchar_fits)
    have c: "store_varchar 64 (sha256 E c) = Some (sha256 E c)"
      using Cons.prems(5) src by (simp add: store_varchar_fits)
    from insert_recorded [OF p] d' v c d2 obtain row where
      tbl: "schema_migrations (db ?w2) = Some (rows @ [row])"
      and rv: "row_version row = version m" and rc: "row_checksum row = sha256 E c"
      by auto
    from None have n: "?n = n + 1" by simp
    from Cons.IH [OF w2 tbl rest [unfolded n] fits digests tracking] obtain new where
      p: "pool w'" and t: "schema_migrations (db w') = Some ((rows @ [row]) @ new)"
      and d: "distinct (map row_version new)"
      and s: "set (map row_version new) = version ` set rest - row_version ` set (rows @ [row])"
      and k: "k = n + 1 + length new"
      and rec: "\<forall>m\<in>set rest. \<exists>c r. readFileSync E (path m) = Some c
                 \<and> find (\<lambda>r. row_version r = version m) ((rows @ [row]) @ new) = Some r
                 \<and> row_checksum r = sha256 E c"
      by blast
    from None have absent: "version m \<notin> row_version ` set rows"
      by (auto simp: find_None_iff)
    have t': "schema_migrations (db w') = Some (rows @ row # new)"
      using t by simp
    have d': "distinct (map row_version (row # new))"
      using d s rv by auto
    have s': "set (map row_version (row # new)) = version ` set (m # rest) - row_version ` set rows"
      using s absent rv by auto
    have k': "k = n + length (row # new)"
      using k by simp
    have "find ?P (rows @ row # new) = Some row"
      using None rv by (simp add: find_append_rows)
    with src rec rc have rec': "\<forall>m\<in>set (m # rest). \<exists>c r. readFileSync E (path m) = Some c
                 \<and> find (\<lambda>r. row_version r = version m) (rows @ row # new) = Some r
                 \<and> row_checksum r = sha256 E c"
      by simp
    from p t' d' s' k' rec' show ?thesis by blast
  qed
qed

lemma migrate_loop_all_recorded:
  assumes "pool w" and "schema_migrations (db w) = Some rows"
    and "\<forall>m\<in>set cat. \<exists>c r. readFileSync E (path m) = Some c
           \<and> find (\<lambda>r. row_version r = version m) rows = Some r
           \<and> row_checksum r = sha256 E c"
  shows "fst (migrate_loop E env cat n w) = Inr n
       \<and> db (snd (migrate_loop E env cat n w)) = db w
       \<and> pool (snd (migrate_loop E env cat n w))"
  using assms
proof (induction cat arbitrary: w)
  case Nil
  then show ?case by (simp add: migrate_loop_Nil)
next
  case (Cons m rest)
  let ?w1 = "snd (isMigrationApplied E (version m) w)"
  let ?w2 = "snd (isMigrationApplied E (version m) ?w1)"
  from Cons.prems(3) obtain c r where src: "readFileSync E (path m) = Some c"
    and found: "find (\<lambda>r. row_version r = version m) rows = Some r"
    and sum: "row_checksum r = sha256 E c"
    by auto
  have w1: "pool ?w1" "schema_migrations (db ?w1) = Some rows"
    using Cons.prems(1,2) by (simp_all add: snd_isMigrationApplied)
  have w2: "pool ?w2" "schema_migrations (db ?w2) = Some rows" "db ?w2 = db w"
    using Cons.prems(1,2) by (simp_all add: snd_isMigrationApplied)
  have ap: "applyMigration E env m ?w1 = (Inr (), ?w2)"
    using applyMigration_present [OF w1 src found, of env] sum by simp
  have "migrate_loop E env (m # rest) n w = migrate_loop E env rest n ?w2"
    using found ap by (simp add: migrate_loop_Cons_open [OF Cons.prems(1,2)] andThen_def)
  moreover from Cons.prems(3) have "\<forall>m\<in>set rest. \<exists>c r. readFileSync E (path m) = Some c
           \<and> find (\<lambda>r. row_version r = version m) rows = Some r
           \<and> row_checksum r = sha256 E c"
    by simp
  ultimately show ?case
    using Cons.IH [OF w2(1,2)] w2(3) by simp
qed

text \<open>
  Claim C2 as stated fails, in three ways. From a tracking store whose row for version
  001 carries another checksum than the digest of the unit's content, the first run ends
  with the checksum mismatch error, leaves the database as it was, and the second run
  from there ends with the same error: it skips nothing and reports no count. With a
  version of 51 characters that ends in a space, the first run completes and stores the
  version cut to 50 characters; the second run finds no row for the version, executes the
  content again and fails on the insert. With a unit whose text empties the tracking
  table, the first run completes and leaves a row for that unit only; the second run
  applies the first unit again and reports one applied unit.
\<close>

theorem migrate_twice_counterexample:
  "fst (migrate test_externals ''local'' (MIGRATIONS ''db'')
          (connect \<lparr>objects = [], schema_migrations = Some [test_row ''001'' ''sha256 of DROP TABLE users'']\<rparr> 0))
     = Inl (ChecksumMismatch ''001'' ''sha256 of DROP TABLE users''
              ''sha256 of CREATE TABLE users (id bigserial)'')
   \<and> db (snd (migrate test_externals ''local'' (MIGRATIONS ''db'')
          (connect \<lparr>objects = [], schema_migrations = Some [test_row ''001'' ''sha256 of DROP TABLE users'']\<rparr> 0)))
     = \<lparr>objects = [], schema_migrations = Some [test_row ''001'' ''sha256 of DROP TABLE users'']\<rparr>
   \<and> fst (migrate test_externals ''local'' (MIGRATIONS ''db'')
          (connect (db (snd (migrate test_externals ''local'' (MIGRATIONS ''db'')
             (connect \<lparr>objects = [], schema_migrations = Some [test_row ''001'' ''sha256 of DROP TABLE users'']\<rparr> 0)))) 0))
     \<noteq> Inr 0
   \<and> length (version padded_unit) = 51
   \<and> fst (migrate test_externals ''local'' [padded_unit]
          (connect \<lparr>objects = [], schema_migrations = None\<rparr> 0)) = Inr 1
   \<and> db (snd (migrate test_externals ''local'' [padded_unit]
          (connect \<lparr>objects = [], schema_migrations = None\<rparr> 0)))
     = \<lparr>objects = [''CREATE TABLE users (id bigserial)''],
        schema_migrations = Some [\<lparr>row_version = take 50 (version padded_unit),
          row_description = ''padded'', row_applied_at = 1700000000,
          row_checksum = ''sha256 of CREATE TABLE users (id bigserial)'',
          row_environment = ''local''\<rparr>]\<rparr>
   \<and> fst (migrate test_externals ''local'' [padded_unit]
          (connect (db (snd (migrate test_externals ''local'' [padded_unit]
             (connect \<lparr>objects = [], schema_migrations = None\<rparr> 0)))) 0))
     = Inl (ServerError ''duplicate key value violates unique constraint'')
   \<and> fst (migrate test_externals ''local'' (MIGRATIONS ''db'' @ [forgetting_unit])
          (connect \<lparr>objects = [], schema_migrations = None\<rparr> 0)) = Inr 2
   \<and> db (snd (migrate test_externals ''local'' (MIGRATIONS ''db'' @ [forgetting_unit])
          (connect \<lparr>objects = [], schema_migrations = None\<rparr> 0)))
     = \<lparr>objects = [''CREATE TABLE users (id bigserial)''],
        schema_migrations = Some [\<lparr>row_version = ''005'',
          row_description = ''forgets'', row_applied_at = 1700000000,
          row_checksum = ''sha256 of DELETE FROM schema_migrations'',
          row_environment = ''local''\<rparr>]\<rparr>
   \<and> fst (migrate test_externals ''local'' (MIGRATIONS ''db'' @ [forgetting_unit])
          (connect (db (snd (migrate test_externals ''local'' (MIGRATIONS ''db'' @ [forgetting_unit])
             (connect \<lparr>objects = [], schema_migrations = None\<rparr> 0)))) 0))
     = Inr 1"
proof -
  let ?drifted = "connect \<lparr>objects = ([] :: string list),
      schema_migrations = Some [test_row ''001'' ''sha256 of DROP TABLE users'']\<rparr> (0 :: nat)"
  let ?empty = "connect \<lparr>objects = ([] :: string list), schema_migrations = None\<rparr> (0 :: nat)"
  have drift: "migrate test_externals ''local'' (MIGRATIONS ''db'') ?drifted
      = (Inl (ChecksumMismatch ''001'' ''sha256 of DROP TABLE users''
               ''sha256 of CREATE TABLE users (id bigserial)''),
         \<lparr>pool = True, db = \<lparr>objects = [], schema_migrations =
             Some [test_row ''001'' ''sha256 of DROP TABLE users'']\<rparr>,
           saved = None, audit_log = 8\<rparr>)"
    by (simp add: migrate_def MIGRATIONS_def migrate_loop_Cons migrate_loop_Nil run_defs
        test_externals_def test_row_def)
have long: "length (version padded_unit) = 51"
    by (simp add: padded_unit_def)
  have padded: "migrate test_externals ''local'' [padded_unit] ?empty
      = (Inr 1, \<lparr>pool = False, db = \<lparr>objects = [''CREATE TABLE users (id bigserial)''],
        schema_migrations = Some [\<lparr>row_version = take 50 (version padded_unit),
          row_description = ''padded'', row_applied_at = 1700000000,
          row_checksum = ''sha256 of CREATE TABLE users (id bigserial)'',
          row_environment = ''local''\<rparr>]\<rparr>, saved = None, audit_log = 11\<rparr>)"
    by (simp add: migrate_def padded_unit_def migrate_loop_Cons migrate_loop_Nil run_defs
        test_externals_def)
  have padded2: "fst (migrate test_externals ''local'' [padded_unit]
      (connect \<lparr>objects = [''CREATE TABLE users (id bigserial)''],
        schema_migrations = Some [\<lparr>row_version = take 50 (version padded_unit),
          row_description = ''padded'', row_applied_at = 1700000000,
          row_checksum = ''sha256 of CREATE TABLE users (id bigserial)'',
          row_environment = ''local''\<rparr>]\<rparr> 0))
      = Inl (ServerError ''duplicate key value violates unique constraint'')"
    by (simp add: migrate_def padded_unit_def migrate_loop_Cons migrate_loop_Nil run_defs
        test_externals_def)
  have forgets: "migrate test_externals ''local'' (MIGRATIONS ''db'' @ [forgetting_unit]) ?empty
      = (Inr 2, \<lparr>pool = False, db = \<lparr>objects = [''CREATE TABLE users (id bigserial)''],
        schema_migrations = Some [\<lparr>row_version = ''005'',
          row_description = ''forgets'', row_applied_at = 1700000000,
          row_checksum = ''sha256 of DELETE FROM schema_migrations'',
          row_environment = ''local''\<rparr>]\<rparr>, saved = None, audit_log = 18\<rparr>)"
    by (simp add: migrate_def MIGRATIONS_def forgetting_unit_def migrate_loop_Cons
        migrate_loop_Nil run_defs test_externals_def)
  have forgets2: "fst (migrate test_externals ''local'' (MIGRATIONS ''db'' @ [forgetting_unit])
      (connect \<lparr>objects = [''CREATE TABLE users (id bigserial)''],
        schema_migrations = Some [\<lparr>row_version = ''005'',
          row_description = ''forgets'', row_applied_at = 1700000000,
          row_checksum = ''sha256 of DELETE FROM schema_migrations'',
          row_environment = ''local''\<rparr>]\<rparr> 0)) = Inr 1"
    by (simp add: migrate_def MIGRATIONS_def forgetting_unit_def migrate_loop_Cons
        migrate_loop_Nil run_defs test_externals_def)
  from long padded2 forgets2 show ?thesis
    by (simp add: drift padded forgets)
qed

text \<open>
  Claim C2, amended. Let the versions of the catalog have at most 50 characters and the
  digests at most 64, so that the tracking table stores them as they are, let no unit's
  text write the tracking table, and let the first run reach the end of the catalog. Then
  the database the first run leaves is the one obtained by executing, in catalog order,
  the content of each unit whose version had no row and inserting its row; the tracking
  table has gained one row for each version of the catalog that had none, and no other,
  and the run reports their number; every unit then has a row with the digest of its
  content. A second run on the database the first one left, with the same files, reports
  zero and leaves the database as it is: every unit is skipped and no content is executed.
\<close>

theorem migrate_twice:
  assumes "migrate E env cat w = (Inr k, w1)"
    and "\<forall>m\<in>set cat. length (version m) \<le> 50"
    and "\<forall>m\<in>set cat. \<forall>c. readFileSync E (path m) = Some c \<longrightarrow> length (sha256 E c) \<le> 64"
    and "\<forall>m\<in>set cat. \<forall>c st. readFileSync E (path m) = Some c \<longrightarrow>
           schema_migrations (fst (snd (exec_sql E c st))) = schema_migrations (fst st)"
  shows "fst (migrate E env cat (connect (db w1) a)) = Inr 0
       \<and> db (snd (migrate E env cat (connect (db w1) a))) = db w1
       \<and> db w1 = apply_pending E env cat
                   (case schema_migrations (db w) of
                      None \<Rightarrow> (db w)\<lparr>schema_migrations := Some []\<rparr>
                    | Some rows \<Rightarrow> db w)
       \<and> (\<exists>new. schema_migrations (db w1) =
               Some ((case schema_migrations (db w) of None \<Rightarrow> [] | Some rows \<Rightarrow> rows) @ new)
            \<and> distinct (map row_version new)
            \<and> set (map row_version new) = version ` set cat -
                 row_version ` set (case schema_migrations (db w) of None \<Rightarrow> [] | Some rows \<Rightarrow> rows)
            \<and> k = length new)
       \<and> (\<forall>m\<in>set cat. \<exists>c r rows1. schema_migrations (db w1) = Some rows1
            \<and> readFileSync E (path m) = Some c
            \<and> find (\<lambda>r. row_version r = version m) rows1 = Some r
            \<and> row_checksum r = sha256 E c)"
proof -
  let ?rows = "case schema_migrations (db w) of None \<Rightarrow> [] | Some rows \<Rightarrow> rows"
  let ?ready = "snd (createMigrationsTable E (snd (healthCheck E w)))"
  have p: "pool w"
    using assms(1) migrate_closed [of w E env cat] by (cases "pool w") auto
  have ready: "pool ?ready" "schema_migrations (db ?ready) = Some ?rows"
    using p by (simp_all add: snd_createMigrationsTable snd_healthCheck split: option.splits)
  have ensured: "db ?ready = (case schema_migrations (db w) of
                      None \<Rightarrow> (db w)\<lparr>schema_migrations := Some []\<rparr>
                    | Some rows \<Rightarrow> db w)"
    using p by (simp add: snd_createMigrationsTable snd_healthCheck split: option.splits)
  obtain w' where loop: "migrate_loop E env cat 0 ?ready = (Inr k, w')" and w1: "w1 = close w'"
    using assms(1) unfolding migrate_open [OF p]
    by (cases "migrate_loop E env cat 0 ?ready") (auto split: sum.splits)
  from migrate_loop_success [OF ready loop assms(2,3,4)] obtain new where
    t: "schema_migrations (db w') = Some (?rows @ new)"
    and d: "distinct (map row_version new)"
    and s: "set (map row_version new) = version ` set cat - row_version ` set ?rows"
    and k: "k = length new"
    and rec: "\<forall>m\<in>set cat. \<exists>c r. readFileSync E (path m) = Some c
                 \<and> find (\<lambda>r. row_version r = version m) (?rows @ new) = Some r
                 \<and> row_checksum r = sha256 E c"
    by auto
  have db1: "db w1 = db w'"
    by (simp add: w1 db_close)
  have executed: "db w1 = apply_pending E env cat
                   (case schema_migrations (db w) of
                      None \<Rightarrow> (db w)\<lparr>schema_migrations := Some []\<rparr>
                    | Some rows \<Rightarrow> db w)"
    using migrate_loop_apply_pending [OF ready loop] by (simp only: db1 ensured)
  let ?again = "connect (db w1) a"
  let ?ready2 = "snd (createMigrationsTable E (snd (healthCheck E ?again)))"
  have p2: "pool ?again" by (simp add: connect_def)
  have ready2: "pool ?ready2" "schema_migrations (db ?ready2) = Some (?rows @ new)"
    "db ?ready2 = db w1"
    using t by (simp_all add: snd_createMigrationsTable snd_healthCheck connect_def db1)
  from migrate_loop_all_recorded [OF ready2(1,2) rec, of env 0]
  have second: "fst (migrate_loop E env cat 0 ?ready2) = Inr 0"
    "db (snd (migrate_loop E env cat 0 ?ready2)) = db w1"
    by (simp_all add: ready2(3))
  have run2: "fst (migrate E env cat ?again) = Inr 0
      \<and> db (snd (migrate E env cat ?again)) = db w1"
    unfolding migrate_open [OF p2] using second
    by (cases "migrate_loop E env cat 0 ?ready2") (auto simp: db_close)
  have appended: "\<exists>new. schema_migrations (db w1) = Some (?rows @ new)
            \<and> distinct (map row_version new)
            \<and> set (map row_version new) = version ` set cat - row_version ` set ?rows
            \<and> k = length new"
    using t d s k db1 by auto
  have recorded: "\<forall>m\<in>set cat. \<exists>c r rows1. schema_migrations (db w1) = Some rows1
            \<and> readFileSync E (path m) = Some c
            \<and> find (\<lambda>r. row_version r = version m) rows1 = Some r
            \<and> row_checksum r = sha256 E c"
    using rec t db1 by auto
  from run2 executed appended recorded show ?thesis by blast
qed

theorem migrate_twice_witness:
  "migrate test_externals ''local'' (MIGRATIONS ''db'')
       (connect \<lparr>objects = [], schema_migrations = None\<rparr> 0)
     = (Inr 1, \<lparr>pool = False,
                db = \<lparr>objects = [''CREATE TABLE users (id bigserial)''],
                       schema_migrations = Some [(test_row ''001'' ''sha256 of CREATE TABLE users (id bigserial)'')
                                                   \<lparr>row_applied_at := 1700000000\<rparr>]\<rparr>,
                saved = None, audit_log = 11\<rparr>)
   \<and> fst (migrate test_externals ''local'' (MIGRATIONS ''db'')
       (connect \<lparr>objects = [''CREATE TABLE users (id bigserial)''],
                 schema_migrations = Some [(test_row ''001'' ''sha256 of CREATE TABLE users (id bigserial)'')
                                             \<lparr>row_applied_at := 1700000000\<rparr>]\<rparr> 11)) = Inr 0
   \<and> db (snd (migrate test_externals ''local'' (MIGRATIONS ''db'')
       (connect \<lparr>objects = [''CREATE TABLE users (id bigserial)''],
                 schema_migrations = Some [(test_row ''001'' ''sha256 of CREATE TABLE users (id bigserial)'')
                                             \<lparr>row_applied_at := 1700000000\<rparr>]\<rparr> 11)))
     = \<lparr>objects = [''CREATE TABLE users (id bigserial)''],
        schema_migrations = Some [(test_row ''001'' ''sha256 of CREATE TABLE users (id bigserial)'')
                                    \<lparr>row_applied_at := 1700000000\<rparr>]\<rparr>
   \<and> apply_pending test_externals ''local'' (MIGRATIONS ''db'')
        \<lparr>objects = [], schema_migrations = Some []\<rparr>
     = \<lparr>objects = [''CREATE TABLE users (id bigserial)''],
        schema_migrations = Some [(test_row ''001'' ''sha256 of CREATE TABLE users (id bigserial)'')
                                    \<lparr>row_applied_at := 1700000000\<rparr>]\<rparr>"
proof -
  let ?after = "\<lparr>pool = False,
                db = \<lparr>objects = [''CREATE TABLE users (id bigserial)''],
                       schema_migrations = Some [(test_row ''001'' ''sha256 of CREATE TABLE users (id bigserial)'')
                                                   \<lparr>row_applied_at := 1700000000\<rparr>]\<rparr>,
                saved = None, audit_log = 11 :: nat\<rparr>"
  have first: "migrate test_externals ''local'' (MIGRATIONS ''db'')
       (connect \<lparr>objects = [], schema_migrations = None\<rparr> 0) = (Inr 1, ?after)"
    by (simp add: migrate_def MIGRATIONS_def migrate_loop_Cons migrate_loop_Nil run_defs
        test_externals_def test_row_def)
  have fits: "\<forall>m\<in>set (MIGRATIONS ''db''). length (version m) \<le> 50"
    by (simp add: MIGRATIONS_def)
  have digests: "\<forall>m\<in>set (MIGRATIONS ''db''). \<forall>c.
      readFileSync test_externals (path m) = Some c \<longrightarrow> length (sha256 test_externals c) \<le> 64"
    by (auto simp: MIGRATIONS_def test_externals_def)
  have tracking: "\<forall>m\<in>set (MIGRATIONS ''db''). \<forall>c st.
      readFileSync test_externals (path m) = Some c \<longrightarrow>
      schema_migrations (fst (snd (exec_sql test_externals c st))) = schema_migrations (fst st)"
    by (auto simp: MIGRATIONS_def test_externals_def split: prod.splits)
  note twice = migrate_twice [OF first fits digests tracking, of 11]
  from first twice [THEN conjunct1] twice [THEN conjunct2, THEN conjunct1]
    twice [THEN conjunct2, THEN conjunct2, THEN conjunct1]
  show ?thesis by (simp add: connect_def)
qed

end
